theory Spec2Isabelle
  imports Complex_Main
begin

section \<open>Shallow embedding of \<open>src/models/xlmr.py\<close>\<close>

text \<open>
  The module defines \<open>XLMRModel\<close>: the construction of the classification head
  (\<open>__init__\<close>), the span pooling and merging of \<open>extract_features\<close>, and the
  feature builder \<open>convert_dataset_to_features\<close>. The transformer encoder, the
  tokenizer and the tensor arithmetic are external; they enter the model as
  parameters. Every \<open>raise\<close>, failed \<open>assert\<close>, missing dictionary key and
  division by zero of the source is a value of type \<open>py_exn\<close>.
\<close>

subsection \<open>Exceptions\<close>

datatype py_exn =
    KeyError string
  | AssertionError string
  | ValueError string
  | ZeroDivisionError
  | UnboundLocalError string
  | IndexError
  | RuntimeError

subsection \<open>Python slicing\<close>

text \<open>
  \<open>slice_index n i\<close> is the bound Python computes for a slice index \<open>i\<close> on a
  sequence of length \<open>n\<close> (step 1): a negative index has \<open>n\<close> added, and the
  result is cut to the interval from 0 to \<open>n\<close>.
\<close>

definition slice_index :: "nat \<Rightarrow> int \<Rightarrow> nat" where
  "slice_index n i = (if i < 0 then nat (int n + i) else min n (nat i))"

text \<open>\<open>xs[:e]\<close>, \<open>xs[s:]\<close> and \<open>xs[s:e]\<close>.\<close>

definition slice_to :: "'a list \<Rightarrow> int \<Rightarrow> 'a list" where
  "slice_to xs e = take (slice_index (length xs) e) xs"

definition slice_from :: "'a list \<Rightarrow> int \<Rightarrow> 'a list" where
  "slice_from xs s = drop (slice_index (length xs) s) xs"

definition slice :: "'a list \<Rightarrow> int \<Rightarrow> int \<Rightarrow> 'a list" where
  "slice xs s e =
     (let s' = slice_index (length xs) s; e' = slice_index (length xs) e
      in take (e' - s') (drop s' xs))"

subsection \<open>Data model\<close>

text \<open>
  The tokenizer (\<open>XLMRobertaTokenizer\<close>) is external. \<open>convert_tokens_to_ids\<close> on
  a list looks every token up on its own, so it is the map of the per-token
  lookup \<open>token_to_id\<close>.
\<close>

record tokenizer =
  tokenize :: "string \<Rightarrow> string list"
  token_to_id :: "string \<Rightarrow> int"
  cls_token :: string
  sep_token :: string
  mask_token :: string
  pad_token :: string

definition convert_tokens_to_ids :: "tokenizer \<Rightarrow> string list \<Rightarrow> int list" where
  "convert_tokens_to_ids tk tokens = map (token_to_id tk) tokens"

text \<open>The entries of \<open>local_config\<close> that the three methods read.\<close>

record local_config =
  max_seq_len :: int
  syns :: "string list"
  symmetric :: bool
  mask_syns :: bool
  train_scd :: bool
  loss :: string
  pool_type :: string
  target_embeddings :: string

text \<open>
  An example of the data processor. The span bounds are the values after
  \<open>int(...)\<close>; the score is a number that is only passed through.
\<close>

record example =
  pos :: string
  label :: string
  score :: real
  start_1 :: int
  end_1 :: int
  text_1 :: string
  start_2 :: int
  end_2 :: int
  text_2 :: string

datatype syn_label = Score real | LabelId int

record WiCFeature2 =
  input_ids :: "int list"
  input_mask :: "int list"
  token_type_ids :: "int list"
  syn_label :: syn_label
  positions :: "int list"
  example :: example

subsection \<open>The feature builder: \<open>convert_dataset_to_features\<close>\<close>

text \<open>\<open>syn_label_to_id = {'T': 1, 'F': 0}\<close>.\<close>

definition syn_label_to_id :: "string \<rightharpoonup> int" where
  "syn_label_to_id = [''T'' \<mapsto> 1, ''F'' \<mapsto> 0]"

text \<open>
  \<open>syns_lab_to_pos = {lab: i for i, lab in enumerate(syns)}\<close>: the comprehension
  stores the pairs from left to right, so a repeated label keeps its last index.
\<close>

definition syns_lab_to_pos :: "string list \<Rightarrow> (string \<rightharpoonup> nat)" where
  "syns_lab_to_pos labs = fold (\<lambda>(i, lab) m. m(lab \<mapsto> i)) (enumerate 0 labs) Map.empty"

text \<open>
  An orientation is one tuple \<open>(st1, end1, sent1, st2, end2, sent2)\<close> of the inner
  loop. The list of line 169: index 0 puts sentence 1 first, index 1 puts
  sentence 2 first.
\<close>

type_synonym orientation = "int \<times> int \<times> string \<times> int \<times> int \<times> string"

definition orientations :: "example \<Rightarrow> orientation list" where
  "orientations ex =
     [(start_1 ex, end_1 ex, text_1 ex, start_2 ex, end_2 ex, text_2 ex),
      (start_2 ex, end_2 ex, text_2 ex, start_1 ex, end_1 ex, text_1 ex)]"

text \<open>
  The tokens a span contributes (lines 182 to 186 and 195 to 199): its
  subtokens, or as many mask tokens when \<open>mask_syns\<close> is set.
\<close>

definition span_tokens :: "tokenizer \<Rightarrow> local_config \<Rightarrow> string \<Rightarrow> string list" where
  "span_tokens tk cfg target =
     (let target_subtokens = tokenize tk target
      in if mask_syns cfg then replicate (length target_subtokens) (mask_token tk)
         else target_subtokens)"

text \<open>
  Lines 172 to 202: the token sequence and the position table of one
  orientation. The two dictionary lookups raise \<open>KeyError\<close> when the role name
  is not in \<open>syns\<close>. A slot index \<open>2 * i\<close> or \<open>2 * i + 1\<close> with \<open>i < len(syns)\<close> is
  always inside the table of length \<open>2 * len(syns)\<close>.
\<close>

definition build_tokens ::
  "tokenizer \<Rightarrow> local_config \<Rightarrow> orientation \<Rightarrow> py_exn + (string list \<times> int list)" where
  "build_tokens tk cfg ori =
     (case ori of (st1, end1, sent1, st2, end2, sent2) \<Rightarrow>
      (let tokens0 = [cls_token tk];
          positions0 = replicate (2 * length (syns cfg)) (0::int);
          left1 = slice_to sent1 st1; target1 = slice sent1 st1 end1;
          right1 = slice_from sent1 end1;
          left2 = slice_to sent2 st2; target2 = slice sent2 st2 end2;
          right2 = slice_from sent2 end2;
          tokens1 = (if left1 \<noteq> [] then tokens0 @ tokenize tk left1 else tokens0)
      in (case syns_lab_to_pos (syns cfg) ''Target'' of
           None \<Rightarrow> Inl (KeyError ''Target'')
         | Some t \<Rightarrow>
            (let positions1 = positions0[t * 2 := int (length tokens1)];
                 tokens2 = tokens1 @ span_tokens tk cfg target1;
                 positions2 = positions1[t * 2 + 1 := int (length tokens2)];
                 tokens3 = (if right1 \<noteq> []
                            then tokens2 @ (tokenize tk right1 @ [sep_token tk])
                            else tokens2);
                 tokens4 = (if left2 \<noteq> [] then tokens3 @ tokenize tk left2 else tokens3)
             in (case syns_lab_to_pos (syns cfg) ''Synonym'' of
                   None \<Rightarrow> Inl (KeyError ''Synonym'')
                 | Some s \<Rightarrow>
                    (let positions3 = positions2[s * 2 := int (length tokens4)];
                         tokens5 = tokens4 @ span_tokens tk cfg target2;
                         positions4 = positions3[s * 2 + 1 := int (length tokens5)];
                         tokens6 = (if right2 \<noteq> []
                                    then tokens5 @ (tokenize tk right2 @ [sep_token tk])
                                    else tokens5)
                     in Inr (tokens6, positions4)))))))"

text \<open>\<open>max(positions)\<close>; Python raises \<open>ValueError\<close> on an empty list.\<close>

definition py_max :: "int list \<Rightarrow> py_exn + int" where
  "py_max xs = (case xs of [] \<Rightarrow> Inl (ValueError ''max() arg is an empty sequence'')
                | x # ys \<Rightarrow> Inr (fold max ys x))"

text \<open>
  Lines 211 to 256: mask, padding and the record of an orientation that was
  not dropped. \<open>[v] * n\<close> is empty for a negative \<open>n\<close>. The assertion on the loss
  is evaluated here, when \<open>train_scd\<close> is set; the label lookup raises
  \<open>KeyError\<close> for a label other than T and F.
\<close>

definition make_feature ::
  "tokenizer \<Rightarrow> local_config \<Rightarrow> example \<Rightarrow> int list \<Rightarrow> int list \<Rightarrow> py_exn + WiCFeature2" where
  "make_feature tk cfg ex ids poss =
     (let input_mask0 = replicate (length ids) (1::int);
          token_type_ids0 = replicate (nat (max_seq_len cfg)) (0::int);
          padding = replicate (nat (max_seq_len cfg - int (length ids)))
                      (convert_tokens_to_ids tk [pad_token tk] ! 0);
          ids' = ids @ padding;
          input_mask' = input_mask0 @ replicate (length padding) 0
      in if train_scd cfg then
           (if loss cfg = ''mse_loss''
            then Inr \<lparr>input_ids = ids', input_mask = input_mask',
                      token_type_ids = token_type_ids0, syn_label = Score (score ex),
                      positions = poss, example = ex\<rparr>
            else Inl (AssertionError ''should be mse loss when training scd''))
         else
           (case syn_label_to_id (label ex) of
              None \<Rightarrow> Inl (KeyError (label ex))
            | Some l \<Rightarrow>
                Inr \<lparr>input_ids = ids', input_mask = input_mask',
                     token_type_ids = token_type_ids0, syn_label = LabelId l,
                     positions = poss, example = ex\<rparr>))"

text \<open>
  What one pass of the inner loop body does to the two accumulators:
  \<open>too_long\<close> says whether \<open>num_too_long_exs\<close> was incremented (line 207),
  \<open>emitted\<close> is the record appended to \<open>features\<close>, if any. The increment comes
  before the test of line 208 that drops the orientation.
\<close>

record outcome =
  too_long :: bool
  emitted :: "WiCFeature2 option"

definition encode_orientation ::
  "tokenizer \<Rightarrow> local_config \<Rightarrow> example \<Rightarrow> orientation \<Rightarrow> py_exn + outcome" where
  "encode_orientation tk cfg ex ori =
     (case build_tokens tk cfg ori of
        Inl e \<Rightarrow> Inl e
      | Inr (tokens, poss) \<Rightarrow>
          let ids = convert_tokens_to_ids tk tokens
          in if int (length ids) > max_seq_len cfg then
               (let ids' = slice_to ids (max_seq_len cfg)
                in (case py_max poss of
                      Inl e \<Rightarrow> Inl e
                    | Inr m \<Rightarrow>
                        (if m > max_seq_len cfg - 1
                         then Inr \<lparr>too_long = True, emitted = None\<rparr>
                         else (case make_feature tk cfg ex ids' poss of
                                 Inl e \<Rightarrow> Inl e
                               | Inr f \<Rightarrow> Inr \<lparr>too_long = True, emitted = Some f\<rparr>))))
             else
               (case make_feature tk cfg ex ids poss of
                  Inl e \<Rightarrow> Inl e
                | Inr f \<Rightarrow> Inr \<lparr>too_long = False, emitted = Some f\<rparr>))"

text \<open>The accumulators of the pass: \<open>features\<close> and \<open>num_too_long_exs\<close>.\<close>

record builder_state =
  features :: "WiCFeature2 list"
  num_too_long_exs :: nat

definition record_outcome :: "builder_state \<Rightarrow> outcome \<Rightarrow> builder_state" where
  "record_outcome st out =
     \<lparr>features = features st @ (case emitted out of None \<Rightarrow> [] | Some f \<Rightarrow> [f]),
      num_too_long_exs = num_too_long_exs st + (if too_long out then 1 else 0)\<rparr>"

text \<open>
  The inner loop over \<open>enumerate\<close> of the two orientations, with the guard of
  line 170: \<open>if not symmetric and i == 0: continue\<close>.
\<close>

fun process_orientations ::
  "tokenizer \<Rightarrow> local_config \<Rightarrow> example \<Rightarrow> builder_state \<Rightarrow> (nat \<times> orientation) list
     \<Rightarrow> py_exn + builder_state" where
  "process_orientations tk cfg ex st [] = Inr st"
| "process_orientations tk cfg ex st ((i, ori) # rest) =
     (if \<not> symmetric cfg \<and> i = 0 then process_orientations tk cfg ex st rest
      else (case encode_orientation tk cfg ex ori of
              Inl e \<Rightarrow> Inl e
            | Inr out \<Rightarrow> process_orientations tk cfg ex (record_outcome st out) rest))"

definition process_example ::
  "tokenizer \<Rightarrow> local_config \<Rightarrow> builder_state \<Rightarrow> example \<Rightarrow> py_exn + builder_state" where
  "process_example tk cfg st ex =
     process_orientations tk cfg ex st (enumerate 0 (orientations ex))"

text \<open>The outer loop over the examples.\<close>

fun process_examples ::
  "tokenizer \<Rightarrow> local_config \<Rightarrow> builder_state \<Rightarrow> example list \<Rightarrow> py_exn + builder_state" where
  "process_examples tk cfg st [] = Inr st"
| "process_examples tk cfg st (ex # exs) =
     (case process_example tk cfg st ex of
        Inl e \<Rightarrow> Inl e
      | Inr st' \<Rightarrow> process_examples tk cfg st' exs)"

text \<open>
  Line 257 divides \<open>num_too_long_exs\<close> by \<open>len(features)\<close> for the log message;
  the quotient of two Python ints raises \<open>ZeroDivisionError\<close> when the divisor
  is 0. The value of the percentage (a float) is only logged.
\<close>

definition not_fitted_percentage :: "builder_state \<Rightarrow> py_exn + real" where
  "not_fitted_percentage st =
     (if length (features st) = 0 then Inl ZeroDivisionError
      else Inr (real (num_too_long_exs st) / real (length (features st)) * 100))"

text \<open>
  The whole method; \<open>examples\<close> is what \<open>data_processor.get_examples(source_dir)\<close>
  returned.
\<close>

definition convert_dataset_to_features ::
  "tokenizer \<Rightarrow> local_config \<Rightarrow> example list \<Rightarrow> py_exn + WiCFeature2 list" where
  "convert_dataset_to_features tk cfg examples =
     (case process_examples tk cfg \<lparr>features = [], num_too_long_exs = 0\<rparr> examples of
        Inl e \<Rightarrow> Inl e
      | Inr st \<Rightarrow>
          (case not_fitted_percentage st of
             Inl e \<Rightarrow> Inl e
           | Inr p \<Rightarrow> Inr (features st)))"

subsection \<open>The classification head of \<open>__init__\<close>\<close>

text \<open>
  Lines 67 to 73: the input width of the head. Both tests compare the
  configured string with the exact name.
\<close>

definition head_input_size :: "local_config \<Rightarrow> nat \<Rightarrow> nat" where
  "head_input_size cfg hidden_size =
     (let input_size0 = hidden_size;
          input_size1 = (if pool_type cfg = ''combined'' then input_size0 * 3 else input_size0)
      in if target_embeddings cfg = ''concat'' then input_size1 * 2
         else if target_embeddings cfg = ''combined'' then input_size1 * 3
         else input_size1)"

text \<open>
  Lines 75 to 78: \<open>syn_clf\<close> is a head with one output for \<open>mse_loss\<close>, two for
  \<open>crossentropy_loss\<close>; for another loss the attribute is never set.
\<close>

record head_shape =
  num_classes :: nat
  input_size :: nat

definition syn_clf :: "local_config \<Rightarrow> nat \<Rightarrow> head_shape option" where
  "syn_clf cfg hidden_size =
     (if loss cfg = ''mse_loss''
      then Some \<lparr>num_classes = 1, input_size = head_input_size cfg hidden_size\<rparr>
      else if loss cfg = ''crossentropy_loss''
      then Some \<lparr>num_classes = 2, input_size = head_input_size cfg hidden_size\<rparr>
      else None)"

subsection \<open>Span pooling and merging: \<open>extract_features\<close>\<close>

text \<open>
  \<open>hidden_states\<close> is a tensor of shape \<open>bs x seq x hs\<close>: its three sizes and its
  entries. The scalar arithmetic of the tensor library (floating point) is a
  parameter: the mean and the maximum of a column, the product and quotient
  of two scalars, the norm of a vector.
\<close>

record 'a tensor3 =
  dim_bs :: nat
  dim_seq :: nat
  dim_hs :: nat
  entry :: "nat \<Rightarrow> nat \<Rightarrow> nat \<Rightarrow> 'a"

record 'a scalar_ops =
  mean_of :: "'a list \<Rightarrow> 'a"
  max_of :: "'a list \<Rightarrow> 'a"
  mul :: "'a \<Rightarrow> 'a \<Rightarrow> 'a"
  quot :: "'a \<Rightarrow> 'a \<Rightarrow> 'a"
  norm_of :: "'a list \<Rightarrow> 'a"

text \<open>\<open>s.startswith(p)\<close>.\<close>

definition startswith :: "string \<Rightarrow> string \<Rightarrow> bool" where
  "startswith s p = (take (length p) s = p)"

text \<open>\<open>hidden_states[ex_id, t]\<close> for an index inside the sequence: one row of width \<open>hs\<close>.\<close>

definition hidden_row :: "'a tensor3 \<Rightarrow> nat \<Rightarrow> nat \<Rightarrow> 'a list" where
  "hidden_row h ex_id t = map (entry h ex_id t) [0..<dim_hs h]"

text \<open>\<open>hidden_states[ex_id, start:end]\<close>: the rows of the slice.\<close>

definition span_rows :: "'a tensor3 \<Rightarrow> nat \<Rightarrow> int \<Rightarrow> int \<Rightarrow> 'a list list" where
  "span_rows h ex_id s e = map (hidden_row h ex_id) (slice [0..<dim_seq h] s e)"

text \<open>
  \<open>hidden_states[ex_id, start]\<close> with an integer index: a negative index counts
  from the end, an index outside the sequence raises \<open>IndexError\<close>.
\<close>

definition row_at :: "'a tensor3 \<Rightarrow> nat \<Rightarrow> int \<Rightarrow> py_exn + 'a list" where
  "row_at h ex_id i =
     (let n = int (dim_seq h); j = (if i < 0 then n + i else i)
      in if 0 \<le> j \<and> j < n then Inr (hidden_row h ex_id (nat j)) else Inl IndexError)"

text \<open>
  \<open>rows.mean(dim=0)\<close> has width \<open>hs\<close> also for an empty slice; \<open>rows.max(dim=0)\<close>
  and \<open>rows[0]\<close> raise on an empty slice.
\<close>

definition mean_dim0 :: "'a scalar_ops \<Rightarrow> nat \<Rightarrow> 'a list list \<Rightarrow> 'a list" where
  "mean_dim0 ops w rows = map (\<lambda>j. mean_of ops (map (\<lambda>r. r ! j) rows)) [0..<w]"

definition max_dim0 :: "'a scalar_ops \<Rightarrow> nat \<Rightarrow> 'a list list \<Rightarrow> py_exn + 'a list" where
  "max_dim0 ops w rows =
     (if rows = [] then Inl RuntimeError
      else Inr (map (\<lambda>j. max_of ops (map (\<lambda>r. r ! j) rows)) [0..<w]))"

definition first_row :: "'a list list \<Rightarrow> py_exn + 'a list" where
  "first_row rows = (case rows of [] \<Rightarrow> Inl IndexError | r # _ \<Rightarrow> Inr r)"

text \<open>
  Line 139 for one span:
  \<open>torch.cat([embs.mean(dim=0), embs.max(dim=0).values, embs[0]], dim=-1)\<close>.
\<close>

definition combined_pool :: "'a scalar_ops \<Rightarrow> nat \<Rightarrow> 'a list list \<Rightarrow> py_exn + 'a list" where
  "combined_pool ops w rows =
     (case max_dim0 ops w rows of
        Inl e \<Rightarrow> Inl e
      | Inr mx \<Rightarrow>
          (case first_row rows of
             Inl e \<Rightarrow> Inl e
           | Inr fst_row \<Rightarrow> Inr (mean_dim0 ops w rows @ mx @ fst_row)))"

text \<open>Evaluate the first span, then the second; the first exception wins.\<close>

definition both :: "py_exn + 'b \<Rightarrow> py_exn + 'b \<Rightarrow> py_exn + ('b \<times> 'b)" where
  "both r1 r2 =
     (case r1 of Inl e \<Rightarrow> Inl e
      | Inr a \<Rightarrow> (case r2 of Inl e \<Rightarrow> Inl e | Inr b \<Rightarrow> Inr (a, b)))"

text \<open>Lines 127 to 141: the dispatch on \<open>pool_type\<close> for the two spans of one example.\<close>

definition pool_spans ::
  "'a scalar_ops \<Rightarrow> string \<Rightarrow> 'a tensor3 \<Rightarrow> nat \<Rightarrow> int \<Rightarrow> int \<Rightarrow> int \<Rightarrow> int
     \<Rightarrow> py_exn + ('a list \<times> 'a list)" where
  "pool_spans ops ptype h ex_id start1 end1 start2 end2 =
     (if ptype = ''mean'' then
        Inr (mean_dim0 ops (dim_hs h) (span_rows h ex_id start1 end1),
             mean_dim0 ops (dim_hs h) (span_rows h ex_id start2 end2))
      else if ptype = ''max'' then
        both (max_dim0 ops (dim_hs h) (span_rows h ex_id start1 end1))
             (max_dim0 ops (dim_hs h) (span_rows h ex_id start2 end2))
      else if ptype = ''first'' then
        both (row_at h ex_id start1) (row_at h ex_id start2)
      else if startswith ptype ''combined'' then
        both (combined_pool ops (dim_hs h) (span_rows h ex_id start1 end1))
             (combined_pool ops (dim_hs h) (span_rows h ex_id start2 end2))
      else Inl (ValueError (''wrong pool_type: '' @ ptype)))"

text \<open>
  Lines 142 to 149: the dispatch on \<open>target_embeddings\<close>. The chain has no
  \<open>else\<close>: for a name that matches no branch \<open>merged_feature\<close> is not assigned,
  and its use on line 150 raises \<open>UnboundLocalError\<close> (the name is the same in
  every pass of the loop, so no earlier pass has assigned it). The two pooled
  vectors have the same width at this point, so the element-wise product
  pairs their entries.
\<close>

definition featwise :: "'a scalar_ops \<Rightarrow> 'a list \<Rightarrow> 'a list \<Rightarrow> 'a list" where
  "featwise ops emb1 emb2 = map (\<lambda>(x, y). mul ops x y) (zip emb1 emb2)"

definition normalized :: "'a scalar_ops \<Rightarrow> 'a list \<Rightarrow> 'a list" where
  "normalized ops emb = map (\<lambda>x. quot ops x (norm_of ops emb)) emb"

definition merge_feature ::
  "'a scalar_ops \<Rightarrow> string \<Rightarrow> 'a list \<Rightarrow> 'a list \<Rightarrow> py_exn + 'a list" where
  "merge_feature ops mtype emb1 emb2 =
     (if mtype = ''featwise_mul'' then Inr (featwise ops emb1 emb2)
      else if mtype = ''concat'' then Inr (emb1 @ emb2)
      else if mtype = ''featwise_mul_norm''
      then Inr (featwise ops (normalized ops emb1) (normalized ops emb2))
      else if startswith mtype ''combined''
      then Inr (emb1 @ emb2 @ featwise ops emb1 emb2)
      else Inl (UnboundLocalError ''merged_feature''))"

text \<open>
  \<open>positions[ex_id, k].item()\<close> on the tensor of position tables, given by its
  rows; an index outside the tensor raises \<open>IndexError\<close>.
\<close>

definition position_item :: "int list list \<Rightarrow> nat \<Rightarrow> nat \<Rightarrow> py_exn + int" where
  "position_item poss ex_id k =
     (if ex_id < length poss \<and> k < length (poss ! ex_id)
      then Inr (poss ! ex_id ! k) else Inl IndexError)"

text \<open>The body of the loop over \<open>range(bs)\<close>: the merged vector of one example.\<close>

definition example_feature ::
  "'a scalar_ops \<Rightarrow> local_config \<Rightarrow> 'a tensor3 \<Rightarrow> int list list \<Rightarrow> nat \<Rightarrow> py_exn + 'a list" where
  "example_feature ops cfg h poss ex_id =
     (case both (both (position_item poss ex_id 0) (position_item poss ex_id 1))
                (both (position_item poss ex_id 2) (position_item poss ex_id 3)) of
        Inl e \<Rightarrow> Inl e
      | Inr ((start1, end1), (start2, end2)) \<Rightarrow>
          (case pool_spans ops (pool_type cfg) h ex_id start1 end1 start2 end2 of
             Inl e \<Rightarrow> Inl e
           | Inr (emb1, emb2) \<Rightarrow> merge_feature ops (target_embeddings cfg) emb1 emb2))"

fun collect_features ::
  "'a scalar_ops \<Rightarrow> local_config \<Rightarrow> 'a tensor3 \<Rightarrow> int list list \<Rightarrow> nat list
     \<Rightarrow> py_exn + 'a list list" where
  "collect_features ops cfg h poss [] = Inr []"
| "collect_features ops cfg h poss (ex_id # rest) =
     (case example_feature ops cfg h poss ex_id of
        Inl e \<Rightarrow> Inl e
      | Inr v \<Rightarrow>
          (case collect_features ops cfg h poss rest of
             Inl e \<Rightarrow> Inl e
           | Inr vs \<Rightarrow> Inr (v # vs)))"

text \<open>
  The method: one merged row per example of the batch; \<open>torch.cat\<close> of an empty
  list of tensors raises \<open>RuntimeError\<close>.
\<close>

definition extract_features ::
  "'a scalar_ops \<Rightarrow> local_config \<Rightarrow> 'a tensor3 \<Rightarrow> int list list \<Rightarrow> py_exn + 'a list list" where
  "extract_features ops cfg h poss =
     (case collect_features ops cfg h poss [0..<dim_bs h] of
        Inl e \<Rightarrow> Inl e
      | Inr vs \<Rightarrow> if vs = [] then Inl RuntimeError else Inr vs)"

subsection \<open>Sample inputs\<close>

text \<open>
  A tokenizer with one token per character and a small vocabulary; it serves
  the concrete evaluations below.
\<close>

definition sample_vocab :: "(string \<times> int) list" where
  "sample_vocab =
     [(''<s>'', 0), (''<pad>'', 1), (''</s>'', 2), (''<unk>'', 3), (''<mask>'', 4),
      (''a'', 10), (''b'', 11), (''c'', 12), (''d'', 13), (''e'', 14)]"

definition char_tokenizer :: tokenizer where
  "char_tokenizer =
     \<lparr>tokenize = map (\<lambda>c. [c]),
      token_to_id = (\<lambda>t. case map_of sample_vocab t of None \<Rightarrow> 3 | Some i \<Rightarrow> i),
      cls_token = ''<s>'', sep_token = ''</s>'', mask_token = ''<mask>'',
      pad_token = ''<pad>''\<rparr>"

definition sample_config :: local_config where
  "sample_config =
     \<lparr>max_seq_len = 10, syns = [''Target'', ''Synonym''], symmetric = False,
      mask_syns = False, train_scd = False, loss = ''crossentropy_loss'',
      pool_type = ''first'', target_embeddings = ''concat''\<rparr>"

definition sample_example :: example where
  "sample_example =
     \<lparr>pos = ''N'', label = ''T'', score = 0,
      start_1 = 0, end_1 = 1, text_1 = ''ab'',
      start_2 = 1, end_2 = 2, text_2 = ''cde''\<rparr>"

definition int_ops :: "int scalar_ops" where
  "int_ops =
     \<lparr>mean_of = (\<lambda>xs. sum_list xs div int (length xs)),
      max_of = (\<lambda>xs. fold max xs (hd xs)),
      mul = (\<lambda>x y. x * y), quot = (\<lambda>x y. x div y),
      norm_of = (\<lambda>xs. sum_list (map abs xs))\<rparr>"

definition sample_hidden :: "int tensor3" where
  "sample_hidden =
     \<lparr>dim_bs = 1, dim_seq = 4, dim_hs = 2,
      entry = (\<lambda>b t j. int (10 * t + j))\<rparr>"

text \<open>
  \<open>emits tk cfg ex ori f\<close>: the pass of the inner loop over the orientation
  \<open>ori\<close> of the example \<open>ex\<close> raises nothing and appends the record \<open>f\<close>.
\<close>

definition emits :: "tokenizer \<Rightarrow> local_config \<Rightarrow> example \<Rightarrow> orientation \<Rightarrow> WiCFeature2 \<Rightarrow> bool" where
  "emits tk cfg ex ori f =
     (case encode_orientation tk cfg ex ori of
        Inl e \<Rightarrow> False
      | Inr out \<Rightarrow> emitted out = Some f)"

text \<open>
  The record the sample inputs produce: sentence 2 (\<open>cde\<close>, span \<open>d\<close>) comes
  first, then sentence 1 (\<open>ab\<close>, span \<open>a\<close>), then two pad tokens.
\<close>

definition sample_feature :: WiCFeature2 where
  "sample_feature =
     \<lparr>input_ids = [0, 12, 13, 14, 2, 10, 11, 2, 1, 1],
      input_mask = [1, 1, 1, 1, 1, 1, 1, 1, 0, 0],
      token_type_ids = [0, 0, 0, 0, 0, 0, 0, 0, 0, 0],
      syn_label = LabelId 1, positions = [2, 3, 5, 6], example = sample_example\<rparr>"

section \<open>Auxiliary facts\<close>

subsection \<open>The role table and the position table\<close>

lemma syns_lab_to_pos_snoc:
  "syns_lab_to_pos (labs @ [lab]) = (syns_lab_to_pos labs)(lab \<mapsto> length labs)"
  by (simp add: syns_lab_to_pos_def enumerate_append_eq)

lemma syns_lab_to_pos_Some:
  "syns_lab_to_pos labs lab = Some i \<Longrightarrow> i < length labs \<and> labs ! i = lab"
proof (induction labs arbitrary: i rule: rev_induct)
  case Nil
  then show ?case by (simp add: syns_lab_to_pos_def)
next
  case (snoc x xs)
  then show ?case
    by (auto simp: syns_lab_to_pos_snoc nth_append split: if_splits)
qed

text \<open>
  A successful \<open>build_tokens\<close> wrote four lengths of the growing token list
  into the slots of the two roles; they are ordered, the first is at least 1
  (the start token) and the last is at most the final length.
\<close>

lemma build_tokens_InrE:
  assumes "build_tokens tk cfg ori = Inr (tokens, poss)"
  obtains t s a b c d where
    "syns_lab_to_pos (syns cfg) ''Target'' = Some t"
    "syns_lab_to_pos (syns cfg) ''Synonym'' = Some s"
    "poss = (replicate (2 * length (syns cfg)) 0)
              [t * 2 := a, t * 2 + 1 := b, s * 2 := c, s * 2 + 1 := d]"
    "1 \<le> a" "a \<le> b" "b \<le> c" "c \<le> d" "d \<le> int (length tokens)"
proof -
  obtain st1 end1 sent1 st2 end2 sent2 where ori: "ori = (st1, end1, sent1, st2, end2, sent2)"
    by (cases ori) auto
  from assms obtain t where t: "syns_lab_to_pos (syns cfg) ''Target'' = Some t"
    unfolding build_tokens_def ori by (auto simp: Let_def split: option.splits)
  from assms t obtain s where s: "syns_lab_to_pos (syns cfg) ''Synonym'' = Some s"
    unfolding build_tokens_def ori by (auto simp: Let_def split: option.splits)
  define tokens1 where "tokens1 =
    (if slice_to sent1 st1 \<noteq> [] then [cls_token tk] @ tokenize tk (slice_to sent1 st1)
     else [cls_token tk])"
  define tokens2 where "tokens2 = tokens1 @ span_tokens tk cfg (slice sent1 st1 end1)"
  define tokens3 where "tokens3 =
    (if slice_from sent1 end1 \<noteq> []
     then tokens2 @ (tokenize tk (slice_from sent1 end1) @ [sep_token tk]) else tokens2)"
  define tokens4 where "tokens4 =
    (if slice_to sent2 st2 \<noteq> [] then tokens3 @ tokenize tk (slice_to sent2 st2) else tokens3)"
  define tokens5 where "tokens5 = tokens4 @ span_tokens tk cfg (slice sent2 st2 end2)"
  define tokens6 where "tokens6 =
    (if slice_from sent2 end2 \<noteq> []
     then tokens5 @ (tokenize tk (slice_from sent2 end2) @ [sep_token tk]) else tokens5)"
  have "build_tokens tk cfg ori =
          Inr (tokens6, (replicate (2 * length (syns cfg)) 0)
              [t * 2 := int (length tokens1), t * 2 + 1 := int (length tokens2),
               s * 2 := int (length tokens4), s * 2 + 1 := int (length tokens5)])"
    unfolding build_tokens_def ori tokens6_def tokens5_def tokens4_def tokens3_def
      tokens2_def tokens1_def
    by (simp only: Let_def prod.case t s option.case)
  with assms have eq: "tokens = tokens6"
    "poss = (replicate (2 * length (syns cfg)) 0)
              [t * 2 := int (length tokens1), t * 2 + 1 := int (length tokens2),
               s * 2 := int (length tokens4), s * 2 + 1 := int (length tokens5)]"
    by simp_all
  have 1: "1 \<le> int (length tokens1)" by (simp add: tokens1_def)
  have 2: "int (length tokens1) \<le> int (length tokens2)" by (simp add: tokens2_def)
  have 3: "int (length tokens2) \<le> int (length tokens4)"
    by (simp add: tokens4_def tokens3_def)
  have 4: "int (length tokens4) \<le> int (length tokens5)" by (simp add: tokens5_def)
  have 5: "int (length tokens5) \<le> int (length tokens)" by (simp add: eq(1) tokens6_def)
  show thesis
    by (rule that[OF t s eq(2) 1 2 3 4 5])
qed

lemma position_slots:
  assumes "t < n" "s < n" "t \<noteq> s"
    and "poss = (replicate (2 * n) (0::int))
              [t * 2 := a, t * 2 + 1 := b, s * 2 := c, s * 2 + 1 := d]"
  shows "length poss = 2 * n"
    and "poss ! (t * 2) = a" and "poss ! (t * 2 + 1) = b"
    and "poss ! (s * 2) = c" and "poss ! (s * 2 + 1) = d"
    and "set poss \<subseteq> {0, a, b, c, d}"
proof -
  have ne: "t * 2 \<noteq> s * 2" "t * 2 \<noteq> s * 2 + 1" "t * 2 + 1 \<noteq> s * 2" "t * 2 + 1 \<noteq> s * 2 + 1"
    using assms(3) by presburger+
  have lt: "t * 2 < 2 * n" "t * 2 + 1 < 2 * n" "s * 2 < 2 * n" "s * 2 + 1 < 2 * n"
    using assms(1,2) by simp_all
  show "length poss = 2 * n" by (simp add: assms(4))
  show "poss ! (t * 2) = a" using ne lt by (simp add: assms(4) nth_list_update)
  show "poss ! (t * 2 + 1) = b" using ne lt by (simp add: assms(4) nth_list_update)
  show "poss ! (s * 2) = c" using ne lt by (simp add: assms(4) nth_list_update)
  show "poss ! (s * 2 + 1) = d" using ne lt by (simp add: assms(4) nth_list_update)
  have "set poss \<subseteq> insert d (insert c (insert b (insert a (set (replicate (2 * n) (0::int))))))"
    unfolding assms(4)
    by (meson insert_mono set_update_subset_insert subset_trans)
  then show "set poss \<subseteq> {0, a, b, c, d}" by auto
qed

lemma py_max_eq: "xs \<noteq> [] \<Longrightarrow> py_max xs = Inr (Max (set xs))"
proof (cases xs)
  case Nil
  then show "xs \<noteq> [] \<Longrightarrow> ?thesis" by simp
next
  case (Cons x ys)
  show ?thesis
    unfolding Cons py_max_def using Max.set_eq_fold[of x ys] by simp
qed

lemma build_tokens_max:
  assumes "build_tokens tk cfg ori = Inr (tokens, poss)"
    and "syns_lab_to_pos (syns cfg) ''Synonym'' = Some s"
  shows "poss \<noteq> []" and "Max (set poss) = poss ! (s * 2 + 1)"
    and "1 \<le> Max (set poss)" and "Max (set poss) \<le> int (length tokens)"
proof -
  from assms(1) obtain t s' a b c d where
    t: "syns_lab_to_pos (syns cfg) ''Target'' = Some t" and
    s': "syns_lab_to_pos (syns cfg) ''Synonym'' = Some s'" and
    poss: "poss = (replicate (2 * length (syns cfg)) 0)
              [t * 2 := a, t * 2 + 1 := b, s' * 2 := c, s' * 2 + 1 := d]" and
    ord: "1 \<le> a" "a \<le> b" "b \<le> c" "c \<le> d" "d \<le> int (length tokens)"
    by (rule build_tokens_InrE)
  from s' assms(2) have ss: "s' = s" by simp
  from syns_lab_to_pos_Some[OF t] syns_lab_to_pos_Some[OF assms(2)]
  have lt: "t < length (syns cfg)" "s < length (syns cfg)" and ne: "t \<noteq> s"
    by auto
  note sl = position_slots[OF lt ne poss[unfolded ss]]
  from sl(1) lt show "poss \<noteq> []" by auto
  have "s * 2 + 1 < length poss" using sl(1) lt by simp
  then have "poss ! (s * 2 + 1) \<in> set poss" by (rule nth_mem)
  then have d_in: "d \<in> set poss" using sl(5) by simp
  have le: "\<forall>x\<in>set poss. x \<le> d" using sl(6) ord by auto
  have "Max (set poss) = d" using d_in le by (intro Max_eqI) auto
  then show "Max (set poss) = poss ! (s * 2 + 1)" "1 \<le> Max (set poss)"
    "Max (set poss) \<le> int (length tokens)"
    using sl(5) ord by auto
qed

lemma build_tokens_positions:
  assumes "build_tokens tk cfg ori = Inr (tokens, poss)"
  shows "\<exists>t s. syns_lab_to_pos (syns cfg) ''Target'' = Some t \<and>
           syns_lab_to_pos (syns cfg) ''Synonym'' = Some s \<and>
           t < length (syns cfg) \<and> s < length (syns cfg) \<and> t \<noteq> s \<and>
           length poss = 2 * length (syns cfg) \<and>
           1 \<le> poss ! (t * 2) \<and> poss ! (t * 2) \<le> poss ! (t * 2 + 1) \<and>
           poss ! (t * 2 + 1) \<le> poss ! (s * 2) \<and>
           poss ! (s * 2) \<le> poss ! (s * 2 + 1) \<and>
           poss ! (s * 2 + 1) \<le> int (length tokens) \<and>
           Max (set poss) = poss ! (s * 2 + 1)"
proof -
  from assms obtain t s a b c d where
    t: "syns_lab_to_pos (syns cfg) ''Target'' = Some t" and
    s: "syns_lab_to_pos (syns cfg) ''Synonym'' = Some s" and
    poss: "poss = (replicate (2 * length (syns cfg)) 0)
              [t * 2 := a, t * 2 + 1 := b, s * 2 := c, s * 2 + 1 := d]" and
    ord: "1 \<le> a" "a \<le> b" "b \<le> c" "c \<le> d" "d \<le> int (length tokens)"
    by (rule build_tokens_InrE)
  from syns_lab_to_pos_Some[OF t] syns_lab_to_pos_Some[OF s]
  have lt: "t < length (syns cfg)" "s < length (syns cfg)" and ne: "t \<noteq> s"
    by auto
  note sl = position_slots[OF lt ne poss]
  note mx = build_tokens_max[OF assms s]
  show ?thesis
    apply (rule exI[of _ t], rule exI[of _ s])
    using t s lt ne sl(1-5) ord mx(2) by simp
qed

subsection \<open>One orientation\<close>

lemma make_feature_fields:
  assumes "make_feature tk cfg ex ids poss = Inr f"
  shows "input_ids f = ids @ replicate (nat (max_seq_len cfg - int (length ids)))
                               (token_to_id tk (pad_token tk))"
    and "input_mask f = replicate (length ids) 1 @
                        replicate (nat (max_seq_len cfg - int (length ids))) 0"
    and "token_type_ids f = replicate (nat (max_seq_len cfg)) 0"
    and "positions f = poss"
    and "example f = ex"
  using assms
  by (auto simp: make_feature_def Let_def convert_tokens_to_ids_def
           split: if_splits option.splits)

lemma slice_to_nonneg: "0 \<le> e \<Longrightarrow> slice_to xs e = take (nat e) xs"
  by (simp add: slice_to_def slice_index_def min_def)

lemma length_convert [simp]: "length (convert_tokens_to_ids tk tokens) = length tokens"
  by (simp add: convert_tokens_to_ids_def)

lemma take_min_length: "take (min (length xs) k) xs = take k xs"
  by (cases "k \<le> length xs") (simp_all add: min_def)

text \<open>
  The two branches of line 205: the id sequence fits, or it is too long and the
  record is dropped or built from the truncated sequence.
\<close>

lemma encode_orientation_fits:
  assumes "build_tokens tk cfg ori = Inr (tokens, poss)"
    and "\<not> int (length tokens) > max_seq_len cfg"
  shows "encode_orientation tk cfg ex ori =
          (case make_feature tk cfg ex (convert_tokens_to_ids tk tokens) poss of
             Inl e \<Rightarrow> Inl e
           | Inr f \<Rightarrow> Inr \<lparr>too_long = False, emitted = Some f\<rparr>)"
  using assms by (simp add: encode_orientation_def Let_def)

lemma encode_orientation_too_long:
  assumes "build_tokens tk cfg ori = Inr (tokens, poss)"
    and "int (length tokens) > max_seq_len cfg"
  shows "encode_orientation tk cfg ex ori =
          (if Max (set poss) > max_seq_len cfg - 1
           then Inr \<lparr>too_long = True, emitted = None\<rparr>
           else (case make_feature tk cfg ex
                        (take (nat (max_seq_len cfg)) (convert_tokens_to_ids tk tokens)) poss of
                   Inl e \<Rightarrow> Inl e
                 | Inr f \<Rightarrow> Inr \<lparr>too_long = True, emitted = Some f\<rparr>))"
proof -
  from assms(1) obtain s where s: "syns_lab_to_pos (syns cfg) ''Synonym'' = Some s"
    by (rule build_tokens_InrE)
  note mx = build_tokens_max[OF assms(1) s]
  have pm: "py_max poss = Inr (Max (set poss))" by (rule py_max_eq[OF mx(1)])
  show ?thesis
  proof (cases "Max (set poss) > max_seq_len cfg - 1")
    case True
    with assms pm show ?thesis by (simp add: encode_orientation_def Let_def)
  next
    case False
    with mx(3) have "0 \<le> max_seq_len cfg" by linarith
    then have "slice_to (convert_tokens_to_ids tk tokens) (max_seq_len cfg) =
               take (nat (max_seq_len cfg)) (convert_tokens_to_ids tk tokens)"
      by (rule slice_to_nonneg)
    with assms pm False show ?thesis by (simp add: encode_orientation_def Let_def)
  qed
qed

lemma encode_orientation_build:
  assumes "encode_orientation tk cfg ex ori = Inr out"
  obtains tokens poss where "build_tokens tk cfg ori = Inr (tokens, poss)"
  using assms by (auto simp: encode_orientation_def split: sum.splits)

lemma emits_cases:
  assumes "emits tk cfg ex ori f"
  obtains tokens poss where
    "build_tokens tk cfg ori = Inr (tokens, poss)"
    "make_feature tk cfg ex
       (take (nat (max_seq_len cfg)) (convert_tokens_to_ids tk tokens)) poss = Inr f"
    "int (length tokens) \<le> max_seq_len cfg \<or>
     (0 \<le> max_seq_len cfg \<and> Max (set poss) \<le> max_seq_len cfg - 1)"
proof -
  from assms obtain out where out: "encode_orientation tk cfg ex ori = Inr out"
    and em: "emitted out = Some f"
    by (auto simp: emits_def split: sum.splits)
  from out obtain tokens poss where bt: "build_tokens tk cfg ori = Inr (tokens, poss)"
    by (rule encode_orientation_build)
  from bt obtain s where s: "syns_lab_to_pos (syns cfg) ''Synonym'' = Some s"
    by (rule build_tokens_InrE)
  note mx = build_tokens_max[OF bt s]
  show thesis
  proof (cases "int (length tokens) > max_seq_len cfg")
    case False
    then have tk: "take (nat (max_seq_len cfg)) (convert_tokens_to_ids tk tokens) =
                   convert_tokens_to_ids tk tokens" by simp
    from out em show thesis
      unfolding encode_orientation_fits[OF bt False]
      by (intro that[OF bt]) (use False in \<open>auto simp: tk split: sum.splits\<close>)
  next
    case True
    from out em have keep: "\<not> Max (set poss) > max_seq_len cfg - 1"
      unfolding encode_orientation_too_long[OF bt True] by (auto split: if_splits)
    with mx(3) have nn: "0 \<le> max_seq_len cfg" by linarith
    from out em keep show thesis
      unfolding encode_orientation_too_long[OF bt True]
      by (intro that[OF bt]) (use keep nn in \<open>auto split: sum.splits\<close>)
  qed
qed

subsection \<open>The two loops\<close>

text \<open>
  Each loop only appends to \<open>features\<close>, and every appended record is emitted by
  an orientation of one of the examples.
\<close>

lemma record_outcome_features:
  "features (record_outcome st out) =
     features st @ (case emitted out of None \<Rightarrow> [] | Some f \<Rightarrow> [f])"
  by (simp add: record_outcome_def)

lemma process_orientations_new:
  assumes "process_orientations tk cfg ex st ios = Inr st'"
  shows "\<exists>new. features st' = features st @ new \<and>
               (\<forall>f\<in>set new. \<exists>io\<in>set ios. emits tk cfg ex (snd io) f)"
  using assms
proof (induction ios arbitrary: st)
  case Nil
  then show ?case by simp
next
  case (Cons io rest)
  obtain i ori where io: "io = (i, ori)" by (cases io)
  show ?case
  proof (cases "\<not> symmetric cfg \<and> i = 0")
    case True
    with Cons.prems io have "process_orientations tk cfg ex st rest = Inr st'" by simp
    from Cons.IH[OF this] show ?thesis by auto
  next
    case False
    with Cons.prems io obtain out where
      out: "encode_orientation tk cfg ex ori = Inr out" and
      rest: "process_orientations tk cfg ex (record_outcome st out) rest = Inr st'"
      by (auto split: sum.splits)
    from Cons.IH[OF rest] obtain new where
      new: "features st' = features (record_outcome st out) @ new"
      "\<forall>f\<in>set new. \<exists>io\<in>set rest. emits tk cfg ex (snd io) f"
      by blast
    have em: "\<forall>f\<in>set (case emitted out of None \<Rightarrow> [] | Some f \<Rightarrow> [f]). emits tk cfg ex ori f"
      using out by (auto simp: emits_def split: option.splits)
    show ?thesis
      apply (rule exI[of _ "(case emitted out of None \<Rightarrow> [] | Some f \<Rightarrow> [f]) @ new"])
      using new em io by (auto simp: record_outcome_features)
  qed
qed

lemma process_example_new:
  assumes "process_example tk cfg st ex = Inr st'"
  shows "\<exists>new. features st' = features st @ new \<and>
               (\<forall>f\<in>set new. \<exists>ori\<in>set (orientations ex). emits tk cfg ex ori f)"
proof -
  from process_orientations_new[OF assms[unfolded process_example_def]]
  obtain new where new: "features st' = features st @ new"
    "\<forall>f\<in>set new. \<exists>io\<in>set (enumerate 0 (orientations ex)). emits tk cfg ex (snd io) f"
    by blast
  have "\<And>io. io \<in> set (enumerate 0 (orientations ex)) \<Longrightarrow> snd io \<in> set (orientations ex)"
    by (metis map_snd_enumerate image_eqI set_map)
  with new show ?thesis by blast
qed

lemma process_examples_new:
  assumes "process_examples tk cfg st exs = Inr st'"
  shows "\<exists>new. features st' = features st @ new \<and>
               (\<forall>f\<in>set new. \<exists>ex\<in>set exs. \<exists>ori\<in>set (orientations ex). emits tk cfg ex ori f)"
  using assms
proof (induction exs arbitrary: st)
  case Nil
  then show ?case by simp
next
  case (Cons ex exs)
  from Cons.prems obtain st1 where
    one: "process_example tk cfg st ex = Inr st1" and
    rest: "process_examples tk cfg st1 exs = Inr st'"
    by (auto split: sum.splits)
  from process_example_new[OF one] obtain new1 where
    n1: "features st1 = features st @ new1"
    "\<forall>f\<in>set new1. \<exists>ori\<in>set (orientations ex). emits tk cfg ex ori f" by blast
  from Cons.IH[OF rest] obtain new2 where
    n2: "features st' = features st1 @ new2"
    "\<forall>f\<in>set new2. \<exists>ex\<in>set exs. \<exists>ori\<in>set (orientations ex). emits tk cfg ex ori f" by blast
  show ?case
    apply (rule exI[of _ "new1 @ new2"])
    using n1 n2 by auto
qed

lemma convert_features_emitted:
  assumes "convert_dataset_to_features tk cfg exs = Inr fs" and "f \<in> set fs"
  shows "\<exists>ex\<in>set exs. \<exists>ori\<in>set (orientations ex). emits tk cfg ex ori f"
proof -
  from assms(1) obtain st where
    st: "process_examples tk cfg \<lparr>features = [], num_too_long_exs = 0\<rparr> exs = Inr st"
    and fs: "fs = features st"
    by (auto simp: convert_dataset_to_features_def split: sum.splits)
  from process_examples_new[OF st] assms(2) fs show ?thesis by auto
qed

subsection \<open>Widths of pooled and merged vectors\<close>

lemma length_hidden_row [simp]: "length (hidden_row h ex_id t) = dim_hs h"
  by (simp add: hidden_row_def)

lemma span_rows_width: "r \<in> set (span_rows h ex_id s e) \<Longrightarrow> length r = dim_hs h"
  by (auto simp: span_rows_def)

lemma length_mean_dim0 [simp]: "length (mean_dim0 ops w rows) = w"
  by (simp add: mean_dim0_def)

lemma max_dim0_width: "max_dim0 ops w rows = Inr v \<Longrightarrow> length v = w"
  by (auto simp: max_dim0_def split: if_splits)

lemma row_at_width: "row_at h ex_id i = Inr r \<Longrightarrow> length r = dim_hs h"
  by (auto simp: row_at_def Let_def split: if_splits)

lemma combined_pool_width:
  assumes "combined_pool ops w rows = Inr v" and "\<forall>r\<in>set rows. length r = w"
  shows "length v = 3 * w"
  using assms
  by (auto simp: combined_pool_def first_row_def dest: max_dim0_width
           split: sum.splits list.splits)

lemma both_Inr: "both r1 r2 = Inr (a, b) \<Longrightarrow> r1 = Inr a \<and> r2 = Inr b"
  by (auto simp: both_def split: sum.splits)

lemma pool_spans_width:
  assumes "pool_spans ops ptype h ex_id s1 e1 s2 e2 = Inr (emb1, emb2)"
  shows "length emb1 = (if ptype \<in> {''mean'', ''max'', ''first''} then dim_hs h else 3 * dim_hs h)"
    and "length emb2 = length emb1"
proof -
  consider "ptype = ''mean''" | "ptype = ''max''" | "ptype = ''first''"
    | "ptype \<notin> {''mean'', ''max'', ''first''}" "startswith ptype ''combined''"
    using assms by (auto simp: pool_spans_def split: if_splits)
  then have "length emb1 = (if ptype \<in> {''mean'', ''max'', ''first''} then dim_hs h else 3 * dim_hs h)
     \<and> length emb2 = length emb1"
  proof cases
    case 1 with assms show ?thesis by (auto simp: pool_spans_def)
  next
    case 2
    with assms have
      "max_dim0 ops (dim_hs h) (span_rows h ex_id s1 e1) = Inr emb1"
      "max_dim0 ops (dim_hs h) (span_rows h ex_id s2 e2) = Inr emb2"
      by (auto simp: pool_spans_def dest!: both_Inr)
    from max_dim0_width[OF this(1)] max_dim0_width[OF this(2)] 2
    show ?thesis by simp
  next
    case 3
    with assms have
      "row_at h ex_id s1 = Inr emb1" "row_at h ex_id s2 = Inr emb2"
      by (auto simp: pool_spans_def dest!: both_Inr)
    from row_at_width[OF this(1)] row_at_width[OF this(2)] 3
    show ?thesis by simp
  next
    case 4
    with assms have
      "combined_pool ops (dim_hs h) (span_rows h ex_id s1 e1) = Inr emb1"
      "combined_pool ops (dim_hs h) (span_rows h ex_id s2 e2) = Inr emb2"
      by (auto simp: pool_spans_def dest!: both_Inr)
    from combined_pool_width[OF this(1)] combined_pool_width[OF this(2)] 4(1)
    show ?thesis by (auto simp: span_rows_width)
  qed
  then show "length emb1 = (if ptype \<in> {''mean'', ''max'', ''first''} then dim_hs h else 3 * dim_hs h)"
    and "length emb2 = length emb1" by simp_all
qed

lemma length_featwise: "length emb2 = length emb1 \<Longrightarrow> length (featwise ops emb1 emb2) = length emb1"
  by (simp add: featwise_def)

lemma merge_feature_width:
  assumes "merge_feature ops mtype emb1 emb2 = Inr v" and "length emb2 = length emb1"
  shows "length v = (if mtype = ''concat'' then 2 * length emb1
                     else if mtype \<in> {''featwise_mul'', ''featwise_mul_norm''} then length emb1
                     else 3 * length emb1)"
  using assms
  by (auto simp: merge_feature_def length_featwise normalized_def split: if_splits)

lemma collect_features_member:
  assumes "collect_features ops cfg h poss ids = Inr vs" and "v \<in> set vs"
  shows "\<exists>ex_id\<in>set ids. example_feature ops cfg h poss ex_id = Inr v"
  using assms
  by (induction ids arbitrary: vs) (auto split: sum.splits)

lemma example_feature_width:
  assumes "example_feature ops cfg h poss ex_id = Inr v"
  shows "length v =
           (if target_embeddings cfg = ''concat'' then 2
            else if target_embeddings cfg \<in> {''featwise_mul'', ''featwise_mul_norm''} then 1
            else 3) *
           (if pool_type cfg \<in> {''mean'', ''max'', ''first''} then dim_hs h else 3 * dim_hs h)"
proof -
  from assms obtain s1 e1 s2 e2 emb1 emb2 where
    pool: "pool_spans ops (pool_type cfg) h ex_id s1 e1 s2 e2 = Inr (emb1, emb2)" and
    merge: "merge_feature ops (target_embeddings cfg) emb1 emb2 = Inr v"
    by (auto simp: example_feature_def split: sum.splits)
  note w = pool_spans_width[OF pool]
  from merge_feature_width[OF merge w(2)] w(1) show ?thesis by (simp split: if_splits)
qed

text \<open>
  For the exact strategy names the width of every merged row is the input
  width \<open>__init__\<close> gave the head.
\<close>

lemma head_width_exact_names:
  assumes "pool_type cfg \<in> {''mean'', ''max'', ''first'', ''combined''}"
    and "target_embeddings cfg \<in> {''featwise_mul'', ''concat'', ''featwise_mul_norm'', ''combined''}"
    and "extract_features ops cfg h poss = Inr vs" and "v \<in> set vs"
  shows "length v = head_input_size cfg (dim_hs h)"
proof -
  from assms(3) have "collect_features ops cfg h poss [0..<dim_bs h] = Inr vs"
    by (auto simp: extract_features_def split: sum.splits if_splits)
  from collect_features_member[OF this assms(4)] obtain ex_id where
    "example_feature ops cfg h poss ex_id = Inr v" by blast
  from example_feature_width[OF this] assms(1,2) show ?thesis
    by (auto simp: head_input_size_def Let_def)
qed

text \<open>
  A name with the prefix \<open>combined\<close> reaches the fourth branch of the pooling
  dispatch.
\<close>

lemma startswith_combined_not_simple:
  "startswith ptype ''combined'' \<Longrightarrow> ptype \<notin> {''mean'', ''max'', ''first''}"
  by (auto simp: startswith_def)

lemma pool_spans_combined_prefix:
  assumes "startswith ptype ''combined''"
  shows "pool_spans ops ptype h ex_id start1 end1 start2 end2 =
           both (combined_pool ops (dim_hs h) (span_rows h ex_id start1 end1))
                (combined_pool ops (dim_hs h) (span_rows h ex_id start2 end2))"
  using assms startswith_combined_not_simple[OF assms] by (simp add: pool_spans_def)

lemma collect_features_pool_cong:
  assumes "\<And>ex_id. example_feature ops cfg h poss ex_id = example_feature ops cfg' h poss ex_id"
  shows "collect_features ops cfg h poss ids = collect_features ops cfg' h poss ids"
  by (induction ids) (simp_all add: assms split: sum.splits)

section \<open>The claims\<close>

text \<open>
  Claim C1, as the code has it. The guard of line 170 skips index 0 when
  \<open>symmetric\<close> is false, so the only orientation encoded for an example is the
  one of index 1: sentence 2 (\<open>text_2\<close>, its span in the Target slot) before
  sentence 1 (\<open>text_1\<close>, its span in the Synonym slot). Processing the example
  is processing that orientation; it appends at most one record, and a record
  it appends is the one that orientation emits.
\<close>

theorem nonsymmetric_encodes_second_orientation:
  assumes "\<not> symmetric cfg"
  shows "process_example tk cfg st ex =
           (case encode_orientation tk cfg ex
                   (start_2 ex, end_2 ex, text_2 ex, start_1 ex, end_1 ex, text_1 ex) of
              Inl e \<Rightarrow> Inl e
            | Inr out \<Rightarrow> Inr (record_outcome st out)) \<and>
         (\<forall>st'. process_example tk cfg st ex = Inr st' \<longrightarrow>
            features st' = features st \<or>
            (\<exists>f. features st' = features st @ [f] \<and>
                 emits tk cfg ex
                   (start_2 ex, end_2 ex, text_2 ex, start_1 ex, end_1 ex, text_1 ex) f))"
proof -
  let ?ori = "(start_2 ex, end_2 ex, text_2 ex, start_1 ex, end_1 ex, text_1 ex)"
  have eq: "process_example tk cfg st ex =
           (case encode_orientation tk cfg ex ?ori of
              Inl e \<Rightarrow> Inl e
            | Inr out \<Rightarrow> Inr (record_outcome st out))"
    using assms
    by (simp add: process_example_def orientations_def enumerate_eq_zip upt_rec
             split: sum.splits)
  have "features st' = features st \<or>
        (\<exists>f. features st' = features st @ [f] \<and> emits tk cfg ex ?ori f)"
    if "process_example tk cfg st ex = Inr st'" for st'
  proof -
    from that eq obtain out where out: "encode_orientation tk cfg ex ?ori = Inr out"
      and st': "st' = record_outcome st out"
      by (auto split: sum.splits)
    show ?thesis
    proof (cases "emitted out")
      case None
      then show ?thesis by (simp add: st' record_outcome_features)
    next
      case (Some f)
      with out have "emits tk cfg ex ?ori f" by (simp add: emits_def)
      with Some show ?thesis by (simp add: st' record_outcome_features)
    qed
  qed
  with eq show ?thesis by blast
qed

text \<open>
  The sample example under the sample configuration: one record, emitted by
  the orientation that puts \<open>cde\<close> first.
\<close>

theorem nonsymmetric_sample_run:
  "\<not> symmetric sample_config \<and>
   process_example char_tokenizer sample_config \<lparr>features = [], num_too_long_exs = 0\<rparr>
     sample_example = Inr \<lparr>features = [sample_feature], num_too_long_exs = 0\<rparr> \<and>
   emits char_tokenizer sample_config sample_example (1, 2, ''cde'', 0, 1, ''ab'') sample_feature"
proof -
  have h: "\<not> symmetric sample_config" by (simp add: sample_config_def)
  have run: "process_example char_tokenizer sample_config
               \<lparr>features = [], num_too_long_exs = 0\<rparr> sample_example =
             Inr \<lparr>features = [sample_feature], num_too_long_exs = 0\<rparr>"
    by code_simp
  have ori: "(start_2 sample_example, end_2 sample_example, text_2 sample_example,
              start_1 sample_example, end_1 sample_example, text_1 sample_example) =
             (1, 2, ''cde'', 0, 1, ''ab'')"
    by (simp add: sample_example_def)
  from nonsymmetric_encodes_second_orientation[OF h, of char_tokenizer "\<lparr>features = [], num_too_long_exs = 0\<rparr>" sample_example]
  show ?thesis unfolding ori using h run by auto
qed

text \<open>
  The claim as written fails on the sample: \<open>symmetric\<close> is false, the pass
  returns the single record whose ids start with those of \<open>cde\<close>, and the
  orientation that puts sentence 1 first does not emit that record.
\<close>

theorem first_orientation_not_emitted_sample:
  "\<not> symmetric sample_config \<and>
   convert_dataset_to_features char_tokenizer sample_config [sample_example] =
     Inr [sample_feature] \<and>
   \<not> emits char_tokenizer sample_config sample_example
       (start_1 sample_example, end_1 sample_example, text_1 sample_example,
        start_2 sample_example, end_2 sample_example, text_2 sample_example) sample_feature"
  by code_simp

text \<open>
  Claim C2. The division of line 257 has no guard: with an empty corpus, and
  with a corpus whose only orientation is dropped after truncation, the loop
  ends with no record and the method raises \<open>ZeroDivisionError\<close>.
\<close>

theorem empty_output_raises_zero_division:
  "convert_dataset_to_features tk cfg [] = Inl ZeroDivisionError \<and>
   process_examples char_tokenizer (sample_config\<lparr>max_seq_len := 4\<rparr>)
     \<lparr>features = [], num_too_long_exs = 0\<rparr> [sample_example] =
     Inr \<lparr>features = [], num_too_long_exs = 1\<rparr> \<and>
   convert_dataset_to_features char_tokenizer (sample_config\<lparr>max_seq_len := 4\<rparr>)
     [sample_example] = Inl ZeroDivisionError"
proof -
  have 1: "convert_dataset_to_features tk cfg [] = Inl ZeroDivisionError"
    by (simp add: convert_dataset_to_features_def not_fitted_percentage_def)
  have 2: "process_examples char_tokenizer (sample_config\<lparr>max_seq_len := 4\<rparr>)
     \<lparr>features = [], num_too_long_exs = 0\<rparr> [sample_example] =
     Inr \<lparr>features = [], num_too_long_exs = 1\<rparr>"
    by code_simp
  have 3: "convert_dataset_to_features char_tokenizer (sample_config\<lparr>max_seq_len := 4\<rparr>)
     [sample_example] = Inl ZeroDivisionError"
    by code_simp
  from 1 2 3 show ?thesis by blast
qed

text \<open>
  Claim C3, as the code has it. In every record the method returns, the two
  roles have distinct slots inside the position table, and both pairs satisfy
  \<open>0 \<le> start \<le> end \<le> max_seq_len\<close>. The bound is \<open>max_seq_len\<close>, not
  \<open>max_seq_len - 1\<close>: the test of line 208 runs only for a truncated sequence.
  The record is emitted by an orientation of its example, and whenever the id
  sequence of an orientation that emits it was longer than \<open>max_seq_len\<close>, both
  ends are at most \<open>max_seq_len - 1\<close>.
\<close>

theorem positions_bounded_by_max_seq_len:
  assumes "convert_dataset_to_features tk cfg exs = Inr fs" and "f \<in> set fs"
  shows "\<exists>t s. syns_lab_to_pos (syns cfg) ''Target'' = Some t \<and>
           syns_lab_to_pos (syns cfg) ''Synonym'' = Some s \<and> t \<noteq> s \<and>
           t * 2 + 1 < length (positions f) \<and> s * 2 + 1 < length (positions f) \<and>
           0 \<le> positions f ! (t * 2) \<and>
           positions f ! (t * 2) \<le> positions f ! (t * 2 + 1) \<and>
           positions f ! (t * 2 + 1) \<le> max_seq_len cfg \<and>
           0 \<le> positions f ! (s * 2) \<and>
           positions f ! (s * 2) \<le> positions f ! (s * 2 + 1) \<and>
           positions f ! (s * 2 + 1) \<le> max_seq_len cfg \<and>
           (\<exists>ori\<in>set (orientations (example f)). emits tk cfg (example f) ori f) \<and>
           (\<forall>ori tokens poss.
              emits tk cfg (example f) ori f \<and>
              build_tokens tk cfg ori = Inr (tokens, poss) \<and>
              max_seq_len cfg < int (length (convert_tokens_to_ids tk tokens)) \<longrightarrow>
              positions f ! (t * 2 + 1) \<le> max_seq_len cfg - 1 \<and>
              positions f ! (s * 2 + 1) \<le> max_seq_len cfg - 1)"
proof -
  from convert_features_emitted[OF assms] obtain ex ori where
    ori: "ori \<in> set (orientations ex)" and em: "emits tk cfg ex ori f" by blast
  from em obtain tokens poss where
    bt: "build_tokens tk cfg ori = Inr (tokens, poss)" and
    mf: "make_feature tk cfg ex
           (take (nat (max_seq_len cfg)) (convert_tokens_to_ids tk tokens)) poss = Inr f" and
    fit: "int (length tokens) \<le> max_seq_len cfg \<or>
          (0 \<le> max_seq_len cfg \<and> Max (set poss) \<le> max_seq_len cfg - 1)"
    by (rule emits_cases)
  have pf: "positions f = poss" by (rule make_feature_fields(4)[OF mf])
  have ef: "example f = ex" by (rule make_feature_fields(5)[OF mf])
  from build_tokens_positions[OF bt] obtain t s where
    ts: "syns_lab_to_pos (syns cfg) ''Target'' = Some t"
        "syns_lab_to_pos (syns cfg) ''Synonym'' = Some s"
        "t < length (syns cfg)" "s < length (syns cfg)" "t \<noteq> s"
        "length poss = 2 * length (syns cfg)" and
    ord: "1 \<le> poss ! (t * 2)" "poss ! (t * 2) \<le> poss ! (t * 2 + 1)"
        "poss ! (t * 2 + 1) \<le> poss ! (s * 2)"
        "poss ! (s * 2) \<le> poss ! (s * 2 + 1)"
        "poss ! (s * 2 + 1) \<le> int (length tokens)"
        "Max (set poss) = poss ! (s * 2 + 1)"
    by blast
  from fit ord have top: "poss ! (s * 2 + 1) \<le> max_seq_len cfg" by linarith
  have emitter: "\<exists>ori\<in>set (orientations (example f)). emits tk cfg (example f) ori f"
    unfolding ef using ori em by blast
  have strict: "positions f ! (t * 2 + 1) \<le> max_seq_len cfg - 1 \<and>
                positions f ! (s * 2 + 1) \<le> max_seq_len cfg - 1"
    if em': "emits tk cfg (example f) ori' f"
      and bt': "build_tokens tk cfg ori' = Inr (tokens', poss')"
      and long: "max_seq_len cfg < int (length (convert_tokens_to_ids tk tokens'))"
    for ori' tokens' poss'
  proof -
    from em' obtain tokens2 poss2 where
      bt2: "build_tokens tk cfg ori' = Inr (tokens2, poss2)" and
      mf2: "make_feature tk cfg (example f)
             (take (nat (max_seq_len cfg)) (convert_tokens_to_ids tk tokens2)) poss2 = Inr f" and
      fit2: "int (length tokens2) \<le> max_seq_len cfg \<or>
            (0 \<le> max_seq_len cfg \<and> Max (set poss2) \<le> max_seq_len cfg - 1)"
      by (rule emits_cases)
    from bt' bt2 have same: "tokens2 = tokens'" "poss2 = poss'" by simp_all
    have pf2: "positions f = poss2" by (rule make_feature_fields(4)[OF mf2])
    from long fit2 have mx: "Max (set poss2) \<le> max_seq_len cfg - 1"
      by (simp add: same)
    from build_tokens_max[OF bt2 ts(2)] have "Max (set poss2) = poss2 ! (s * 2 + 1)"
      by simp
    with mx have "poss ! (s * 2 + 1) \<le> max_seq_len cfg - 1"
      using pf pf2 by simp
    with ord show ?thesis unfolding pf by linarith
  qed
  then have univ: "\<forall>ori tokens poss.
              emits tk cfg (example f) ori f \<and>
              build_tokens tk cfg ori = Inr (tokens, poss) \<and>
              max_seq_len cfg < int (length (convert_tokens_to_ids tk tokens)) \<longrightarrow>
              positions f ! (t * 2 + 1) \<le> max_seq_len cfg - 1 \<and>
              positions f ! (s * 2 + 1) \<le> max_seq_len cfg - 1"
    by blast
  have slots: "t * 2 + 1 < length (positions f)" "s * 2 + 1 < length (positions f)"
    unfolding pf using ts by simp_all
  have bounds: "0 \<le> positions f ! (t * 2)"
    "positions f ! (t * 2) \<le> positions f ! (t * 2 + 1)"
    "positions f ! (t * 2 + 1) \<le> max_seq_len cfg"
    "0 \<le> positions f ! (s * 2)"
    "positions f ! (s * 2) \<le> positions f ! (s * 2 + 1)"
    "positions f ! (s * 2 + 1) \<le> max_seq_len cfg"
    unfolding pf using ord top by linarith+
  show ?thesis
    apply (rule exI[of _ t], rule exI[of _ s])
    apply (intro conjI)
    apply (rule ts(1), rule ts(2), rule ts(5), rule slots(1), rule slots(2))
    apply (rule bounds(1), rule bounds(2), rule bounds(3))
    apply (rule bounds(4), rule bounds(5), rule bounds(6))
    apply (rule emitter)
    apply (rule univ)
    done
qed

text \<open>
  The sample example in symmetric mode: two records, and the second span of
  the sample record ends at 6, below the limit 10. With \<open>max_seq_len = 7\<close> the
  eight ids are truncated, the record is kept, and the end 6 is at most
  \<open>max_seq_len - 1\<close>.
\<close>

theorem positions_bounded_sample:
  "convert_dataset_to_features char_tokenizer (sample_config\<lparr>symmetric := True\<rparr>)
     [sample_example] =
     Inr [sample_feature\<lparr>input_ids := [0, 10, 11, 2, 12, 13, 14, 2, 1, 1],
                         positions := [1, 2, 5, 6]\<rparr>, sample_feature] \<and>
   positions sample_feature ! 3 \<le> max_seq_len (sample_config\<lparr>symmetric := True\<rparr>) \<and>
   convert_dataset_to_features char_tokenizer (sample_config\<lparr>max_seq_len := 7\<rparr>)
     [sample_example] =
     Inr [sample_feature\<lparr>input_ids := [0, 12, 13, 14, 2, 10, 11],
                         input_mask := [1, 1, 1, 1, 1, 1, 1],
                         token_type_ids := [0, 0, 0, 0, 0, 0, 0]\<rparr>] \<and>
   max_seq_len (sample_config\<lparr>max_seq_len := 7\<rparr>) <
     int (length (convert_tokens_to_ids char_tokenizer
            [''<s>'', ''c'', ''d'', ''e'', ''</s>'', ''a'', ''b'', ''</s>''])) \<and>
   positions sample_feature ! 3 \<le> max_seq_len (sample_config\<lparr>max_seq_len := 7\<rparr>) - 1"
proof -
  let ?cfg = "sample_config\<lparr>symmetric := True\<rparr>"
  let ?fs = "[sample_feature\<lparr>input_ids := [0, 10, 11, 2, 12, 13, 14, 2, 1, 1],
                         positions := [1, 2, 5, 6]\<rparr>, sample_feature]"
  have h1: "convert_dataset_to_features char_tokenizer ?cfg [sample_example] = Inr ?fs"
    by code_simp
  have h2: "sample_feature \<in> set ?fs" by simp
  have t: "syns_lab_to_pos (syns ?cfg) ''Target'' = Some 0" by code_simp
  have s: "syns_lab_to_pos (syns ?cfg) ''Synonym'' = Some 1" by code_simp
  from positions_bounded_by_max_seq_len[OF h1 h2] obtain t0 s0 where
    s0: "syns_lab_to_pos (syns ?cfg) ''Synonym'' = Some s0" and
    a0: "positions sample_feature ! (s0 * 2 + 1) \<le> max_seq_len ?cfg"
    by blast
  from s0 s have "s0 = 1" by simp
  with a0 have a: "positions sample_feature ! 3 \<le> max_seq_len ?cfg" by simp
  let ?cfg7 = "sample_config\<lparr>max_seq_len := 7\<rparr>"
  let ?f7 = "sample_feature\<lparr>input_ids := [0, 12, 13, 14, 2, 10, 11],
                         input_mask := [1, 1, 1, 1, 1, 1, 1],
                         token_type_ids := [0, 0, 0, 0, 0, 0, 0]\<rparr>"
  let ?ori = "(1, 2, ''cde'', 0, 1, ''ab'') :: orientation"
  let ?tokens = "[''<s>'', ''c'', ''d'', ''e'', ''</s>'', ''a'', ''b'', ''</s>'']"
  have g1: "convert_dataset_to_features char_tokenizer ?cfg7 [sample_example] = Inr [?f7]"
    by code_simp
  have g2: "?f7 \<in> set [?f7]" by simp
  have t7: "syns_lab_to_pos (syns ?cfg7) ''Target'' = Some 0" by code_simp
  have s7: "syns_lab_to_pos (syns ?cfg7) ''Synonym'' = Some 1" by code_simp
  have em: "emits char_tokenizer ?cfg7 (example ?f7) ?ori ?f7" by code_simp
  have bt: "build_tokens char_tokenizer ?cfg7 ?ori = Inr (?tokens, [2, 3, 5, 6])"
    by code_simp
  have long: "max_seq_len ?cfg7 < int (length (convert_tokens_to_ids char_tokenizer ?tokens))"
    by (simp add: sample_config_def)
  from positions_bounded_by_max_seq_len[OF g1 g2] obtain t' s' where
    s': "syns_lab_to_pos (syns ?cfg7) ''Synonym'' = Some s'" and
    u: "\<forall>ori tokens poss.
          emits char_tokenizer ?cfg7 (example ?f7) ori ?f7 \<and>
          build_tokens char_tokenizer ?cfg7 ori = Inr (tokens, poss) \<and>
          max_seq_len ?cfg7 < int (length (convert_tokens_to_ids char_tokenizer tokens)) \<longrightarrow>
          positions ?f7 ! (t' * 2 + 1) \<le> max_seq_len ?cfg7 - 1 \<and>
          positions ?f7 ! (s' * 2 + 1) \<le> max_seq_len ?cfg7 - 1"
    by blast
  from s' s7 have one: "s' = 1" by simp
  from u[rule_format, OF conjI[OF em conjI[OF bt long]]]
  have "positions ?f7 ! (s' * 2 + 1) \<le> max_seq_len ?cfg7 - 1" by (rule conjunct2)
  then have b: "positions sample_feature ! 3 \<le> max_seq_len ?cfg7 - 1"
    unfolding one by simp
  from h1 a g1 long b show ?thesis by blast
qed

text \<open>
  The claim as written fails when the tokens fill the sequence exactly and the
  second span is last: seven tokens, \<open>max_seq_len = 7\<close>, and the recorded end 7
  is above \<open>max_seq_len - 1\<close>.
\<close>

theorem span_end_reaches_max_seq_len:
  "convert_dataset_to_features char_tokenizer (sample_config\<lparr>max_seq_len := 7\<rparr>)
     [sample_example\<lparr>start_1 := 1, end_1 := 2\<rparr>] =
     Inr [\<lparr>input_ids = [0, 12, 13, 14, 2, 10, 11],
           input_mask = [1, 1, 1, 1, 1, 1, 1],
           token_type_ids = [0, 0, 0, 0, 0, 0, 0],
           syn_label = LabelId 1, positions = [2, 3, 6, 7],
           example = sample_example\<lparr>start_1 := 1, end_1 := 2\<rparr>\<rparr>] \<and>
   \<not> ([2, 3, 6, 7] ! 3 \<le> max_seq_len (sample_config\<lparr>max_seq_len := 7\<rparr>) - 1)"
  by code_simp

text \<open>
  Claim C4, as the code has it. For an orientation whose id sequence is longer
  than \<open>max_seq_len\<close>: it is dropped, without an exception, exactly when the
  recorded end of one of the two spans is \<open>max_seq_len\<close> or more (the test is
  \<open>max(positions) > max_seq_len - 1\<close>); otherwise the record is built from the
  first \<open>max_seq_len\<close> ids, which are exactly \<open>max_seq_len\<close> many. Whenever the
  pass ends without an exception the counter has grown by one, kept or dropped.
\<close>

theorem too_long_orientation_outcome:
  assumes "build_tokens tk cfg ori = Inr (tokens, poss)"
    and "int (length (convert_tokens_to_ids tk tokens)) > max_seq_len cfg"
    and "syns_lab_to_pos (syns cfg) ''Target'' = Some t"
    and "syns_lab_to_pos (syns cfg) ''Synonym'' = Some s"
  shows "(if max_seq_len cfg \<le> poss ! (t * 2 + 1) \<or> max_seq_len cfg \<le> poss ! (s * 2 + 1)
          then encode_orientation tk cfg ex ori = Inr \<lparr>too_long = True, emitted = None\<rparr>
          else int (length (take (nat (max_seq_len cfg)) (convert_tokens_to_ids tk tokens))) =
                 max_seq_len cfg \<and>
               encode_orientation tk cfg ex ori =
                 (case make_feature tk cfg ex
                         (take (nat (max_seq_len cfg)) (convert_tokens_to_ids tk tokens)) poss of
                    Inl e \<Rightarrow> Inl e
                  | Inr f \<Rightarrow> Inr \<lparr>too_long = True, emitted = Some f\<rparr>)) \<and>
         (\<forall>out. encode_orientation tk cfg ex ori = Inr out \<longrightarrow>
            num_too_long_exs (record_outcome st out) = num_too_long_exs st + 1)"
proof -
  from assms(2) have long: "int (length tokens) > max_seq_len cfg" by simp
  note enc = encode_orientation_too_long[OF assms(1) long, of ex]
  from build_tokens_positions[OF assms(1)] assms(3,4)
  have ord: "1 \<le> poss ! (t * 2)" "poss ! (t * 2) \<le> poss ! (t * 2 + 1)"
        "poss ! (t * 2 + 1) \<le> poss ! (s * 2)"
        "poss ! (s * 2) \<le> poss ! (s * 2 + 1)"
        "Max (set poss) = poss ! (s * 2 + 1)"
    by auto
  have cond: "(max_seq_len cfg \<le> poss ! (t * 2 + 1) \<or> max_seq_len cfg \<le> poss ! (s * 2 + 1))
                = (Max (set poss) > max_seq_len cfg - 1)"
    using ord by auto
  have len: "int (length (take (nat (max_seq_len cfg)) (convert_tokens_to_ids tk tokens))) =
               max_seq_len cfg"
    if "\<not> Max (set poss) > max_seq_len cfg - 1"
    using that ord long by simp
  have first: "(if max_seq_len cfg \<le> poss ! (t * 2 + 1) \<or> max_seq_len cfg \<le> poss ! (s * 2 + 1)
          then encode_orientation tk cfg ex ori = Inr \<lparr>too_long = True, emitted = None\<rparr>
          else int (length (take (nat (max_seq_len cfg)) (convert_tokens_to_ids tk tokens))) =
                 max_seq_len cfg \<and>
               encode_orientation tk cfg ex ori =
                 (case make_feature tk cfg ex
                         (take (nat (max_seq_len cfg)) (convert_tokens_to_ids tk tokens)) poss of
                    Inl e \<Rightarrow> Inl e
                  | Inr f \<Rightarrow> Inr \<lparr>too_long = True, emitted = Some f\<rparr>))"
    unfolding cond using enc len by (cases "Max (set poss) > max_seq_len cfg - 1") simp_all
  have second: "num_too_long_exs (record_outcome st out) = num_too_long_exs st + 1"
    if "encode_orientation tk cfg ex ori = Inr out" for out
  proof -
    from that have "too_long out"
      unfolding enc by (auto split: if_splits sum.splits)
    then show ?thesis by (simp add: record_outcome_def)
  qed
  from first second show ?thesis by blast
qed

text \<open>
  The sample orientation has eight tokens and second span end 6; with
  \<open>max_seq_len = 6\<close> it is dropped.
\<close>

theorem too_long_dropped_sample:
  "build_tokens char_tokenizer (sample_config\<lparr>max_seq_len := 6\<rparr>) (1, 2, ''cde'', 0, 1, ''ab'') =
     Inr ([''<s>'', ''c'', ''d'', ''e'', ''</s>'', ''a'', ''b'', ''</s>''], [2, 3, 5, 6]) \<and>
   encode_orientation char_tokenizer (sample_config\<lparr>max_seq_len := 6\<rparr>) sample_example
     (1, 2, ''cde'', 0, 1, ''ab'') = Inr \<lparr>too_long = True, emitted = None\<rparr>"
proof -
  let ?cfg = "sample_config\<lparr>max_seq_len := 6\<rparr>"
  let ?tokens = "[''<s>'', ''c'', ''d'', ''e'', ''</s>'', ''a'', ''b'', ''</s>'']"
  have bt: "build_tokens char_tokenizer ?cfg (1, 2, ''cde'', 0, 1, ''ab'') =
              Inr (?tokens, [2, 3, 5, 6])"
    by code_simp
  have long: "int (length (convert_tokens_to_ids char_tokenizer ?tokens)) > max_seq_len ?cfg"
    by (simp add: sample_config_def convert_tokens_to_ids_def)
  have t: "syns_lab_to_pos (syns ?cfg) ''Target'' = Some 0"
    by code_simp
  have s: "syns_lab_to_pos (syns ?cfg) ''Synonym'' = Some 1"
    by code_simp
  have c: "max_seq_len ?cfg \<le> [2, 3, 5, 6] ! (0 * 2 + 1) \<or>
           max_seq_len ?cfg \<le> [2, 3, 5, 6] ! (1 * 2 + 1)"
    by (simp add: sample_config_def)
  from too_long_orientation_outcome[OF bt long t s, of sample_example] c bt show ?thesis by simp
qed

text \<open>
  The claim as written fails for an end at \<open>max_seq_len - 1\<close>: with
  \<open>max_seq_len = 7\<close> the eight tokens are truncated, the second span ends at 6,
  and the record is kept.
\<close>

theorem span_end_at_last_index_kept:
  "build_tokens char_tokenizer (sample_config\<lparr>max_seq_len := 7\<rparr>) (1, 2, ''cde'', 0, 1, ''ab'') =
     Inr ([''<s>'', ''c'', ''d'', ''e'', ''</s>'', ''a'', ''b'', ''</s>''], [2, 3, 5, 6]) \<and>
   max_seq_len (sample_config\<lparr>max_seq_len := 7\<rparr>) - 1 \<le> [2, 3, 5, 6] ! 3 \<and>
   encode_orientation char_tokenizer (sample_config\<lparr>max_seq_len := 7\<rparr>) sample_example
     (1, 2, ''cde'', 0, 1, ''ab'') =
     Inr \<lparr>too_long = True,
          emitted = Some \<lparr>input_ids = [0, 12, 13, 14, 2, 10, 11],
                          input_mask = [1, 1, 1, 1, 1, 1, 1],
                          token_type_ids = [0, 0, 0, 0, 0, 0, 0],
                          syn_label = LabelId 1, positions = [2, 3, 5, 6],
                          example = sample_example\<rparr>\<rparr>"
  by code_simp

text \<open>
  Claim C5. The chain of lines 142 to 149 has no \<open>else\<close> branch, and
  \<open>__init__\<close> does not look at the name either: for \<open>target_embeddings = sum\<close>
  the head is built without an error, and \<open>extract_features\<close> pools the first
  example and then fails on the unassigned \<open>merged_feature\<close>. The sibling chain
  on \<open>pool_type\<close> raises \<open>ValueError\<close> for the same name.
\<close>

theorem unknown_merge_name_falls_through:
  "merge_feature ops ''sum'' emb1 emb2 = Inl (UnboundLocalError ''merged_feature'') \<and>
   syn_clf (sample_config\<lparr>target_embeddings := ''sum''\<rparr>) (dim_hs sample_hidden) =
     Some \<lparr>num_classes = 2, input_size = 2\<rparr> \<and>
   extract_features int_ops (sample_config\<lparr>target_embeddings := ''sum''\<rparr>) sample_hidden
     [[1, 2, 2, 3]] = Inl (UnboundLocalError ''merged_feature'') \<and>
   extract_features int_ops (sample_config\<lparr>pool_type := ''sum''\<rparr>) sample_hidden
     [[1, 2, 2, 3]] = Inl (ValueError ''wrong pool_type: sum'')"
proof -
  have 1: "merge_feature ops ''sum'' emb1 emb2 = Inl (UnboundLocalError ''merged_feature'')"
    by (simp add: merge_feature_def startswith_def)
  have 2: "syn_clf (sample_config\<lparr>target_embeddings := ''sum''\<rparr>) (dim_hs sample_hidden) =
     Some \<lparr>num_classes = 2, input_size = 2\<rparr>"
    by code_simp
  have 3: "extract_features int_ops (sample_config\<lparr>target_embeddings := ''sum''\<rparr>) sample_hidden
     [[1, 2, 2, 3]] = Inl (UnboundLocalError ''merged_feature'')"
    by code_simp
  have 4: "extract_features int_ops (sample_config\<lparr>pool_type := ''sum''\<rparr>) sample_hidden
     [[1, 2, 2, 3]] = Inl (ValueError ''wrong pool_type: sum'')"
    by code_simp
  from 1 2 3 4 show ?thesis by blast
qed

text \<open>
  Claim C6, as the code has it. A \<open>pool_type\<close> that is none of \<open>mean\<close>, \<open>max\<close>,
  \<open>first\<close> and does not begin with \<open>combined\<close> makes \<open>extract_features\<close> raise
  \<open>ValueError\<close> with the message \<open>wrong pool_type:\<close> followed by the value.
  The error is raised in the first pass of the loop over the batch, so the
  batch must not be empty and its first row of positions must have four
  entries. Every \<open>pool_type\<close> that begins with \<open>combined\<close> selects the combined
  pooling: it is none of the three simple names, both spans are pooled as
  mean, maximum and first row, and \<open>extract_features\<close> returns what it returns
  for the exact name \<open>combined\<close>.
\<close>

theorem unknown_pool_type_raises:
  "(pool_type cfg \<notin> {''mean'', ''max'', ''first''} \<and>
    \<not> startswith (pool_type cfg) ''combined'' \<and>
    0 < dim_bs h \<and> poss \<noteq> [] \<and> 4 \<le> length (hd poss) \<longrightarrow>
    extract_features ops cfg h poss =
      Inl (ValueError (''wrong pool_type: '' @ pool_type cfg))) \<and>
   (startswith (pool_type cfg) ''combined'' \<longrightarrow>
    pool_type cfg \<notin> {''mean'', ''max'', ''first''} \<and>
    pool_spans ops (pool_type cfg) h ex_id start1 end1 start2 end2 =
      both (combined_pool ops (dim_hs h) (span_rows h ex_id start1 end1))
           (combined_pool ops (dim_hs h) (span_rows h ex_id start2 end2)) \<and>
    extract_features ops cfg h poss =
      extract_features ops (cfg\<lparr>pool_type := ''combined''\<rparr>) h poss)"
proof -
  have unknown: "extract_features ops cfg h poss =
      Inl (ValueError (''wrong pool_type: '' @ pool_type cfg))"
    if a: "pool_type cfg \<notin> {''mean'', ''max'', ''first''}"
      "\<not> startswith (pool_type cfg) ''combined''"
      "0 < dim_bs h" "poss \<noteq> []" "4 \<le> length (hd poss)"
  proof -
    have pool: "pool_spans ops (pool_type cfg) h ex_id s1 e1 s2 e2 =
                  Inl (ValueError (''wrong pool_type: '' @ pool_type cfg))" for ex_id s1 e1 s2 e2
      using a(1,2) by (simp add: pool_spans_def)
    from a(4,5) have item: "position_item poss 0 k = Inr (poss ! 0 ! k)" if "k < 4" for k
      using that by (cases poss) (simp_all add: position_item_def)
    have ex0: "example_feature ops cfg h poss 0 =
                 Inl (ValueError (''wrong pool_type: '' @ pool_type cfg))"
      by (simp add: example_feature_def both_def item pool)
    from a(3) have "[0..<dim_bs h] = 0 # [1..<dim_bs h]" by (simp add: upt_conv_Cons)
    then show ?thesis by (simp add: extract_features_def ex0)
  qed
  have prefix: "pool_type cfg \<notin> {''mean'', ''max'', ''first''} \<and>
    pool_spans ops (pool_type cfg) h ex_id start1 end1 start2 end2 =
      both (combined_pool ops (dim_hs h) (span_rows h ex_id start1 end1))
           (combined_pool ops (dim_hs h) (span_rows h ex_id start2 end2)) \<and>
    extract_features ops cfg h poss =
      extract_features ops (cfg\<lparr>pool_type := ''combined''\<rparr>) h poss"
    if p: "startswith (pool_type cfg) ''combined''"
  proof -
    have exact: "startswith ''combined'' ''combined''" by (simp add: startswith_def)
    have same: "pool_spans ops (pool_type cfg) h i s1 e1 s2 e2 =
                pool_spans ops ''combined'' h i s1 e1 s2 e2" for i s1 e1 s2 e2
      by (simp only: pool_spans_combined_prefix[OF p] pool_spans_combined_prefix[OF exact])
    have "example_feature ops cfg h poss i =
          example_feature ops (cfg\<lparr>pool_type := ''combined''\<rparr>) h poss i" for i
      by (simp add: example_feature_def same split: sum.splits prod.splits)
    then have "collect_features ops cfg h poss [0..<dim_bs h] =
               collect_features ops (cfg\<lparr>pool_type := ''combined''\<rparr>) h poss [0..<dim_bs h]"
      by (rule collect_features_pool_cong)
    then have "extract_features ops cfg h poss =
               extract_features ops (cfg\<lparr>pool_type := ''combined''\<rparr>) h poss"
      by (simp add: extract_features_def)
    with startswith_combined_not_simple[OF p] pool_spans_combined_prefix[OF p]
    show ?thesis by blast
  qed
  from unknown prefix show ?thesis by blast
qed

text \<open>
  The name \<open>sum\<close> on the sample batch, and the name \<open>combined_v2\<close> on the same
  batch.
\<close>

theorem unknown_pool_type_sample:
  "pool_type (sample_config\<lparr>pool_type := ''sum''\<rparr>) \<notin> {''mean'', ''max'', ''first''} \<and>
   \<not> startswith (pool_type (sample_config\<lparr>pool_type := ''sum''\<rparr>)) ''combined'' \<and>
   extract_features int_ops (sample_config\<lparr>pool_type := ''sum''\<rparr>) sample_hidden [[1, 2, 2, 3]] =
     Inl (ValueError ''wrong pool_type: sum'') \<and>
   startswith (pool_type (sample_config\<lparr>pool_type := ''combined_v2''\<rparr>)) ''combined'' \<and>
   pool_spans int_ops ''combined_v2'' sample_hidden 0 1 2 2 3 =
     Inr ([10, 11, 10, 11, 10, 11], [20, 21, 20, 21, 20, 21]) \<and>
   extract_features int_ops (sample_config\<lparr>pool_type := ''combined_v2''\<rparr>) sample_hidden
     [[1, 2, 2, 3]] =
   extract_features int_ops (sample_config\<lparr>pool_type := ''combined''\<rparr>) sample_hidden
     [[1, 2, 2, 3]]"
proof -
  let ?cfg = "sample_config\<lparr>pool_type := ''sum''\<rparr>"
  have h1: "pool_type ?cfg \<notin> {''mean'', ''max'', ''first''}" by simp
  have h2: "\<not> startswith (pool_type ?cfg) ''combined''" by (simp add: startswith_def)
  have h3: "0 < dim_bs sample_hidden" by (simp add: sample_hidden_def)
  have h4: "[[1, 2, 2, 3]] \<noteq> ([] :: int list list)" by simp
  have h5: "4 \<le> length (hd [[1, 2, 2, 3 :: int]])" by simp
  from unknown_pool_type_raises[of ?cfg sample_hidden "[[1, 2, 2, 3]]" int_ops] h1 h2 h3 h4 h5
  have a: "extract_features int_ops ?cfg sample_hidden [[1, 2, 2, 3]] =
             Inl (ValueError ''wrong pool_type: sum'')"
    by simp
  let ?cfg2 = "sample_config\<lparr>pool_type := ''combined_v2''\<rparr>"
  have p: "startswith (pool_type ?cfg2) ''combined''" by (simp add: startswith_def)
  have both_val: "both (combined_pool int_ops (dim_hs sample_hidden) (span_rows sample_hidden 0 1 2))
             (combined_pool int_ops (dim_hs sample_hidden) (span_rows sample_hidden 0 2 3)) =
        Inr ([10, 11, 10, 11, 10, 11], [20, 21, 20, 21, 20, 21])"
    by code_simp
  note c = unknown_pool_type_raises[of ?cfg2 sample_hidden "[[1, 2, 2, 3]]" int_ops 0 1 2 2 3,
              THEN conjunct2, rule_format, OF p]
  from c both_val have b: "pool_spans int_ops ''combined_v2'' sample_hidden 0 1 2 2 3 =
     Inr ([10, 11, 10, 11, 10, 11], [20, 21, 20, 21, 20, 21])"
    by simp
  from c have d: "extract_features int_ops ?cfg2 sample_hidden [[1, 2, 2, 3]] =
      extract_features int_ops (sample_config\<lparr>pool_type := ''combined''\<rparr>) sample_hidden
        [[1, 2, 2, 3]]"
    by simp
  from h1 h2 a p b d show ?thesis by blast
qed

text \<open>
  The claim as written fails for \<open>combined_v2\<close>: it is none of the four
  names, and it selects the combined pooling.
\<close>

theorem pool_name_outside_four_accepted:
  "''combined_v2'' \<notin> {''mean'', ''max'', ''first'', ''combined''} \<and>
   extract_features int_ops (sample_config\<lparr>pool_type := ''combined_v2''\<rparr>)
     sample_hidden [[1, 2, 2, 3]] =
     Inr [[10, 11, 10, 11, 10, 11, 20, 21, 20, 21, 20, 21]]"
  by code_simp

text \<open>
  Claim C7, as the code has it. The assertion of line 235 is evaluated when a
  record is about to be appended. With \<open>train_scd\<close> set and a loss other than
  \<open>mse_loss\<close>, no orientation emits a record, an orientation that survives the
  truncation test raises the \<open>AssertionError\<close>, and the method never returns
  a list of records.
\<close>

theorem train_scd_without_mse_never_emits:
  assumes "train_scd cfg" and "loss cfg \<noteq> ''mse_loss''"
  shows "\<not> emits tk cfg ex ori f \<and>
         (build_tokens tk cfg ori = Inr (tokens, poss) \<and>
          (int (length tokens) \<le> max_seq_len cfg \<or> Max (set poss) \<le> max_seq_len cfg - 1) \<longrightarrow>
          encode_orientation tk cfg ex ori =
            Inl (AssertionError ''should be mse loss when training scd'')) \<and>
         convert_dataset_to_features tk cfg exs \<noteq> Inr fs"
proof -
  have mf: "make_feature tk cfg ex' ids ps =
              Inl (AssertionError ''should be mse loss when training scd'')" for ex' ids ps
    using assms by (simp add: make_feature_def Let_def)
  have no_emit: "\<not> emits tk cfg ex' ori' f'" for ex' ori' f'
  proof
    assume "emits tk cfg ex' ori' f'"
    then obtain tokens' poss' where
      "make_feature tk cfg ex'
         (take (nat (max_seq_len cfg)) (convert_tokens_to_ids tk tokens')) poss' = Inr f'"
      by (rule emits_cases)
    with mf show False by simp
  qed
  have raise: "encode_orientation tk cfg ex ori =
            Inl (AssertionError ''should be mse loss when training scd'')"
    if bt: "build_tokens tk cfg ori = Inr (tokens, poss)"
      and fit: "int (length tokens) \<le> max_seq_len cfg \<or> Max (set poss) \<le> max_seq_len cfg - 1"
  proof (cases "int (length tokens) > max_seq_len cfg")
    case False
    show ?thesis unfolding encode_orientation_fits[OF bt False] by (simp add: mf)
  next
    case True
    with fit have "\<not> Max (set poss) > max_seq_len cfg - 1" by simp
    then show ?thesis unfolding encode_orientation_too_long[OF bt True] by (simp add: mf)
  qed
  have never: "convert_dataset_to_features tk cfg exs \<noteq> Inr fs"
  proof
    assume r: "convert_dataset_to_features tk cfg exs = Inr fs"
    show False
    proof (cases fs)
      case Nil
      with r show False
        by (auto simp: convert_dataset_to_features_def not_fitted_percentage_def
                 split: sum.splits if_splits)
    next
      case (Cons f' fs')
      then have "f' \<in> set fs" by simp
      from convert_features_emitted[OF r this] no_emit show False by blast
    qed
  qed
  from no_emit raise never show ?thesis by blast
qed

text \<open>
  The sample orientation fits into ten positions, so it raises the assertion.
\<close>

theorem train_scd_assertion_sample:
  "train_scd (sample_config\<lparr>train_scd := True\<rparr>) \<and>
   loss (sample_config\<lparr>train_scd := True\<rparr>) \<noteq> ''mse_loss'' \<and>
   encode_orientation char_tokenizer (sample_config\<lparr>train_scd := True\<rparr>) sample_example
     (1, 2, ''cde'', 0, 1, ''ab'') =
     Inl (AssertionError ''should be mse loss when training scd'')"
proof -
  let ?cfg = "sample_config\<lparr>train_scd := True\<rparr>"
  let ?tokens = "[''<s>'', ''c'', ''d'', ''e'', ''</s>'', ''a'', ''b'', ''</s>'']"
  have h1: "train_scd ?cfg" by simp
  have h2: "loss ?cfg \<noteq> ''mse_loss''" by (simp add: sample_config_def)
  have bt: "build_tokens char_tokenizer ?cfg (1, 2, ''cde'', 0, 1, ''ab'') =
              Inr (?tokens, [2, 3, 5, 6])"
    by code_simp
  have fit: "int (length ?tokens) \<le> max_seq_len ?cfg" by (simp add: sample_config_def)
  from train_scd_without_mse_never_emits[OF h1 h2, of char_tokenizer sample_example "(1, 2, ''cde'', 0, 1, ''ab'')" _
          ?tokens "[2, 3, 5, 6]"] bt fit h1 h2
  show ?thesis by blast
qed

text \<open>
  The claim as written fails when no orientation survives: with
  \<open>max_seq_len = 4\<close> both examples are dropped, the loop ends without the
  assertion, and the exception of the method is the \<open>ZeroDivisionError\<close> of
  line 257.
\<close>

theorem train_scd_all_dropped_no_assertion:
  "train_scd (sample_config\<lparr>train_scd := True, max_seq_len := 4\<rparr>) \<and>
   loss (sample_config\<lparr>train_scd := True, max_seq_len := 4\<rparr>) \<noteq> ''mse_loss'' \<and>
   process_examples char_tokenizer (sample_config\<lparr>train_scd := True, max_seq_len := 4\<rparr>)
     \<lparr>features = [], num_too_long_exs = 0\<rparr> [sample_example, sample_example] =
     Inr \<lparr>features = [], num_too_long_exs = 2\<rparr> \<and>
   convert_dataset_to_features char_tokenizer
     (sample_config\<lparr>train_scd := True, max_seq_len := 4\<rparr>) [sample_example, sample_example] =
     Inl ZeroDivisionError"
  by code_simp

text \<open>
  Claim C8. In every record the method returns, \<open>input_ids\<close> and \<open>input_mask\<close>
  have length \<open>max_seq_len\<close>; for an orientation of the record's example with
  token list \<open>tokens\<close>, and \<open>n\<close> the smaller of its length and \<open>max_seq_len\<close>,
  \<open>input_ids\<close> is the first \<open>n\<close> ids followed by the pad id and \<open>input_mask\<close>
  is \<open>n\<close> ones followed by zeros.
\<close>

theorem feature_lengths_are_max_seq_len:
  assumes "convert_dataset_to_features tk cfg exs = Inr fs" and "f \<in> set fs"
  shows "int (length (input_ids f)) = max_seq_len cfg \<and>
         int (length (input_mask f)) = max_seq_len cfg \<and>
         (\<exists>ori\<in>set (orientations (example f)). \<exists>tokens poss n.
            build_tokens tk cfg ori = Inr (tokens, poss) \<and>
            n = min (length tokens) (nat (max_seq_len cfg)) \<and>
            input_ids f = take n (convert_tokens_to_ids tk tokens) @
                          replicate (nat (max_seq_len cfg) - n) (token_to_id tk (pad_token tk)) \<and>
            input_mask f = replicate n 1 @ replicate (nat (max_seq_len cfg) - n) 0)"
proof -
  from convert_features_emitted[OF assms] obtain ex ori where
    ori: "ori \<in> set (orientations ex)" and em: "emits tk cfg ex ori f" by blast
  from em obtain tokens poss where
    bt: "build_tokens tk cfg ori = Inr (tokens, poss)" and
    mf: "make_feature tk cfg ex
           (take (nat (max_seq_len cfg)) (convert_tokens_to_ids tk tokens)) poss = Inr f" and
    fit: "int (length tokens) \<le> max_seq_len cfg \<or>
          (0 \<le> max_seq_len cfg \<and> Max (set poss) \<le> max_seq_len cfg - 1)"
    by (rule emits_cases)
  define n where "n = min (length tokens) (nat (max_seq_len cfg))"
  have len: "length (take (nat (max_seq_len cfg)) (convert_tokens_to_ids tk tokens)) = n"
    by (simp add: n_def)
  from fit have nn: "0 \<le> max_seq_len cfg" by linarith
  have pad: "nat (max_seq_len cfg - int n) = nat (max_seq_len cfg) - n"
    using nn by (simp add: n_def)
  note flds = make_feature_fields[OF mf, unfolded len pad]
  have n_le: "n \<le> nat (max_seq_len cfg)" by (simp add: n_def)
  have l1: "int (length (input_ids f)) = max_seq_len cfg"
    using nn by (simp add: flds(1) n_def)
  have l2: "int (length (input_mask f)) = max_seq_len cfg"
    using nn n_le by (simp add: flds(2))
  have "\<exists>tokens poss n'.
            build_tokens tk cfg ori = Inr (tokens, poss) \<and>
            n' = min (length tokens) (nat (max_seq_len cfg)) \<and>
            input_ids f = take n' (convert_tokens_to_ids tk tokens) @
                          replicate (nat (max_seq_len cfg) - n') (token_to_id tk (pad_token tk)) \<and>
            input_mask f = replicate n' 1 @ replicate (nat (max_seq_len cfg) - n') 0"
    apply (rule exI[of _ tokens], rule exI[of _ poss], rule exI[of _ n])
    using bt flds(1,2) by (simp add: n_def take_min_length[where xs = "convert_tokens_to_ids tk tokens", simplified])
  with ori flds(5) l1 l2 show ?thesis by blast
qed

text \<open>
  The sample record: eight real tokens and two pad tokens, \<open>max_seq_len = 10\<close>.
\<close>

theorem feature_lengths_sample:
  "convert_dataset_to_features char_tokenizer sample_config [sample_example] = Inr [sample_feature] \<and>
   int (length (input_ids sample_feature)) = max_seq_len sample_config \<and>
   int (length (input_mask sample_feature)) = max_seq_len sample_config"
proof -
  have h1: "convert_dataset_to_features char_tokenizer sample_config [sample_example] =
              Inr [sample_feature]"
    by code_simp
  have h2: "sample_feature \<in> set [sample_feature]" by simp
  from feature_lengths_are_max_seq_len[OF h1 h2] h1 show ?thesis by simp
qed

text \<open>
  Claim C9. For two pooled vectors of equal width the \<open>concat\<close> merge is the
  concatenation: twice as wide, its first half is \<open>emb1\<close> and its second half
  is \<open>emb2\<close>.
\<close>

theorem concat_merge_is_concatenation:
  assumes "length emb1 = length emb2"
  shows "merge_feature ops ''concat'' emb1 emb2 = Inr (emb1 @ emb2) \<and>
         length (emb1 @ emb2) = 2 * length emb1 \<and>
         take (length (emb1 @ emb2) div 2) (emb1 @ emb2) = emb1 \<and>
         drop (length (emb1 @ emb2) div 2) (emb1 @ emb2) = emb2"
  using assms by (simp add: merge_feature_def)

text \<open>
  Two vectors of width 2.
\<close>

theorem concat_merge_sample:
  "length [10, 11 :: int] = length [20, 21 :: int] \<and>
   merge_feature int_ops ''concat'' [10, 11] [20, 21] = Inr [10, 11, 20, 21]"
proof -
  have h: "length [10, 11 :: int] = length [20, 21 :: int]" by simp
  from concat_merge_is_concatenation[OF h, of int_ops] h show ?thesis by simp
qed

text \<open>
  Claim C10. \<open>__init__\<close> compares \<open>pool_type\<close> with the exact name \<open>combined\<close>,
  \<open>extract_features\<close> accepts every name with that prefix. For \<open>combined_v2\<close>
  and hidden width 2 the head is built for input width 2 and the merged row
  has width 6.
\<close>

theorem head_width_differs_for_combined_prefix:
  "syn_clf (sample_config\<lparr>pool_type := ''combined_v2'', target_embeddings := ''featwise_mul''\<rparr>)
     (dim_hs sample_hidden) = Some \<lparr>num_classes = 2, input_size = 2\<rparr> \<and>
   extract_features int_ops
     (sample_config\<lparr>pool_type := ''combined_v2'', target_embeddings := ''featwise_mul''\<rparr>)
     sample_hidden [[1, 2, 2, 3]] = Inr [[200, 231, 200, 231, 200, 231]] \<and>
   length [200, 231, 200, 231, 200, 231 :: int] \<noteq> 2"
  by code_simp

end
